theory Spec2Isabelle
  imports Main "HOL-Library.Word"
begin

section \<open>The HashiCups order resource (hashicups/order\_resource.go)\<close>

text \<open>
  The four resource handlers \<open>Create\<close>, \<open>Read\<close>, \<open>Update\<close> and \<open>Delete\<close> of
  \<open>orderResource\<close> are embedded as functions. A handler receives the client, its request,
  the response object it fills in (an in-out parameter in the Go code) and the state of the
  remote system; Create, Read and Update also receive what the framework's \<open>State.Set\<close>
  answers, and Create and Update the time of the call. A handler gives back the response,
  or the panic that ended the run, the remote state and the list of client calls it made,
  in order.
\<close>

subsection \<open>Machine integers\<close>

text \<open>
  Go's \<open>int\<close> is taken at 64 bits (the amd64 and arm64 targets), so the conversions
  \<open>int(...)\<close> and \<open>int64(...)\<close> of the source lose nothing. A \<open>float64\<close> is never
  computed with by this code: it is copied and handed to \<open>types.Float64Value\<close>, so it is
  carried as its IEEE 754 bit pattern (sign, 11 bits of exponent, 52 bits of fraction). A
  NaN has every exponent bit set and a fraction that is not zero.
\<close>

type_synonym go_int = "64 word"
type_synonym int64 = "64 word"
type_synonym float64 = "64 word"

definition isNaN :: "float64 \<Rightarrow> bool" where
  "isNaN f = (take_bit 11 (drop_bit 52 f) = 2047 \<and> take_bit 52 f \<noteq> 0)"

definition int_of_int64 :: "int64 \<Rightarrow> go_int" where
  "int_of_int64 v = scast v"

definition int64_of_int :: "go_int \<Rightarrow> int64" where
  "int64_of_int v = scast v"

subsection \<open>strconv.Itoa\<close>

text \<open>
  \<open>strconv.Itoa(i)\<close> is the decimal text of \<open>i\<close>: a minus sign for a negative number, then
  the digits, most significant first, with no leading zero.
\<close>

definition digit_char :: "nat \<Rightarrow> char" where
  "digit_char d = char_of (48 + d)"

fun digits :: "nat \<Rightarrow> string" where
  "digits n = (if n < 10 then [digit_char n] else digits (n div 10) @ [digit_char (n mod 10)])"

declare digits.simps [simp del]

definition Itoa :: "go_int \<Rightarrow> string" where
  "Itoa i = (if sint i < 0 then CHR ''-'' # digits (nat (- sint i)) else digits (nat (sint i)))"

text \<open>
  Reading a decimal text back, used to state that \<open>Itoa\<close> loses nothing: the value of a
  digit, of a run of digits, and of an optionally signed run.
\<close>

definition digit_val :: "char \<Rightarrow> nat" where
  "digit_val c = of_char c - 48"

definition decimal_value :: "string \<Rightarrow> nat" where
  "decimal_value s = foldl (\<lambda>acc c. 10 * acc + digit_val c) 0 s"

definition read_decimal :: "string \<Rightarrow> int" where
  "read_decimal s =
     (case s of
        [] \<Rightarrow> 0
      | c # rest \<Rightarrow> if c = CHR ''-'' then - int (decimal_value rest) else int (decimal_value s))"

subsection \<open>Framework values: types.String, types.Int64, types.Float64\<close>

text \<open>
  A framework value is null, unknown or known. \<open>ValueString\<close> and \<open>ValueInt64\<close> give the
  zero value of the Go type for a null or unknown value.
\<close>

datatype 'a tfval = Null | Unknown | Known 'a

text \<open>
  The two ways a handler can panic: an index past the end of a slice, and
  \<open>types.Float64Value\<close> of a NaN, which the framework hands to \<open>big.NewFloat\<close>.
\<close>

datatype panic = IndexOutOfRange | FloatNaN

definition Float64Value :: "float64 \<Rightarrow> panic + float64 tfval" where
  "Float64Value f = (if isNaN f then Inl FloatNaN else Inr (Known f))"

fun ValueString :: "string tfval \<Rightarrow> string" where
  "ValueString (Known s) = s"
| "ValueString _ = ''''"

fun ValueInt64 :: "int64 tfval \<Rightarrow> int64" where
  "ValueInt64 (Known v) = v"
| "ValueInt64 _ = 0"

subsection \<open>The resource's schema data\<close>

text \<open>
  The three model structs. Field names carry the struct as a prefix:
  \<open>orderResourceModel.ID\<close> is \<open>model_ID\<close>, \<open>orderItemModel.Quantity\<close> is
  \<open>itemModel_Quantity\<close>, \<open>orderItemCoffeeModel.Name\<close> is \<open>coffeeModel_Name\<close>.
\<close>

record orderItemCoffeeModel =
  coffeeModel_ID :: "int64 tfval"
  coffeeModel_Name :: "string tfval"
  coffeeModel_Teaser :: "string tfval"
  coffeeModel_Description :: "string tfval"
  coffeeModel_Price :: "float64 tfval"
  coffeeModel_Image :: "string tfval"

record orderItemModel =
  itemModel_Coffee :: orderItemCoffeeModel
  itemModel_Quantity :: "int64 tfval"

record orderResourceModel =
  model_ID :: "string tfval"
  model_Items :: "orderItemModel list"
  model_LastUpdated :: "string tfval"

subsection \<open>The client's wire data\<close>

text \<open>
  The structs \<open>Order\<close>, \<open>OrderItem\<close> and \<open>Coffee\<close> of the client are declared outside
  order\_resource.go; they are given here with the fields the handlers read and write.
  A field a struct literal of the source leaves out has the zero value of its type.
\<close>

record Coffee =
  Coffee_ID :: go_int
  Coffee_Name :: string
  Coffee_Teaser :: string
  Coffee_Description :: string
  Coffee_Price :: float64
  Coffee_Image :: string

record OrderItem =
  OrderItem_Coffee :: Coffee
  OrderItem_Quantity :: go_int

record Order =
  Order_ID :: go_int
  Order_Items :: "OrderItem list"

subsection \<open>Errors and the client\<close>

text \<open>
  Modelled from the spec: the error values of the client, which order\_resource.go only
  tests against \<open>nil\<close> and prints with \<open>Error()\<close>. The kinds are those of the spec's
  taxonomy; each carries its message, a remote error also its status.
\<close>

datatype error =
    TransportError string
  | RemoteError nat string
  | NotFoundError string
  | DecodeError string
  | MappingError string
  | CancelledError string

fun Error :: "error \<Rightarrow> string" where
  "Error (TransportError m) = m"
| "Error (RemoteError status body) = body"
| "Error (NotFoundError m) = m"
| "Error (DecodeError m) = m"
| "Error (MappingError m) = m"
| "Error (CancelledError m) = m"

text \<open>
  The client is a parameter of every handler: its four methods act on the state \<open>'r\<close> of
  the remote system and answer with an error (\<open>Inl\<close>) or a value. The theorems about the
  handlers hold for every client.
\<close>

record 'r Client =
  CreateOrder :: "OrderItem list \<Rightarrow> 'r \<Rightarrow> (error + Order) \<times> 'r"
  GetOrder :: "string \<Rightarrow> 'r \<Rightarrow> (error + Order) \<times> 'r"
  UpdateOrder :: "string \<Rightarrow> OrderItem list \<Rightarrow> 'r \<Rightarrow> (error + Order) \<times> 'r"
  DeleteOrder :: "string \<Rightarrow> 'r \<Rightarrow> error option \<times> 'r"

datatype call =
    CallCreateOrder "OrderItem list"
  | CallGetOrder string
  | CallUpdateOrder string "OrderItem list"
  | CallDeleteOrder string

subsection \<open>Diagnostics\<close>

datatype severity = SeverityError | SeverityWarning

record diagnostic =
  diag_Severity :: severity
  diag_Summary :: string
  diag_Detail :: string

type_synonym Diagnostics = "diagnostic list"

definition HasError :: "Diagnostics \<Rightarrow> bool" where
  "HasError diags = list_ex (\<lambda>d. diag_Severity d = SeverityError) diags"

text \<open>\<open>Append\<close> adds each new diagnostic that is not in the collection yet.\<close>

fun Append :: "Diagnostics \<Rightarrow> Diagnostics \<Rightarrow> Diagnostics" where
  "Append diags [] = diags"
| "Append diags (d # rest) = Append (if d \<in> set diags then diags else diags @ [d]) rest"

definition AddError :: "Diagnostics \<Rightarrow> string \<Rightarrow> string \<Rightarrow> Diagnostics" where
  "AddError diags summary detail =
     Append diags [\<lparr>diag_Severity = SeverityError, diag_Summary = summary, diag_Detail = detail\<rparr>]"

subsection \<open>Requests and responses\<close>

text \<open>
  A plan or a prior state reaches a handler through \<open>Get(ctx, &target)\<close>, which gives
  diagnostics and fills the target struct: a \<open>tfsdk_data\<close> holds both. The state kept in a
  response is \<open>None\<close> when no object is stored (the resource is absent) and \<open>Some m\<close> once
  a model \<open>m\<close> has been stored. The response is the same pair of fields for the four
  handlers.
\<close>

record tfsdk_data =
  Get_diags :: Diagnostics
  Get_target :: orderResourceModel

record CreateRequest =
  CreateRequest_Plan :: tfsdk_data

record ReadRequest =
  ReadRequest_State :: tfsdk_data

record UpdateRequest =
  UpdateRequest_Plan :: tfsdk_data
  UpdateRequest_State :: tfsdk_data

record DeleteRequest =
  DeleteRequest_State :: tfsdk_data

record Response =
  State :: "orderResourceModel option"
  Diagnostics :: Diagnostics

text \<open>
  \<open>diags = response.State.Set(ctx, val)\<close> followed by
  \<open>response.Diagnostics.Append(diags...)\<close>. What the framework's \<open>State.Set\<close> finds
  wrong with a model is a parameter of the handlers, \<open>stateSet\<close>: the diagnostics it gives
  for the model. The model is stored unless there is an error among them. The test of
  \<open>HasError\<close> that ends Create, Read and Update comes after this and changes nothing.
\<close>

definition State_Set :: "(orderResourceModel \<Rightarrow> Diagnostics) \<Rightarrow> Response \<Rightarrow> orderResourceModel \<Rightarrow> Response" where
  "State_Set stateSet response val =
     (let diags = stateSet val
      in \<lparr>State = (if HasError diags then State response else Some val),
          Diagnostics = Append (Diagnostics response) diags\<rparr>)"

text \<open>
  What a handler run leaves behind: the response if the handler returned, or the panic
  that ended it; the remote state; the client calls made.
\<close>

datatype 'a outcome = Panic panic | Returned 'a

record 'r run =
  result :: "Response outcome"
  remote :: 'r
  calls :: "call list"

subsection \<open>The mapping between schema data and wire data\<close>

text \<open>The struct literal \<open>OrderItem{Coffee: Coffee{ID: ...}, Quantity: ...}\<close> of Create and Update.\<close>

definition wire_item :: "orderItemModel \<Rightarrow> OrderItem" where
  "wire_item item =
     \<lparr>OrderItem_Coffee =
        \<lparr>Coffee_ID = int_of_int64 (ValueInt64 (coffeeModel_ID (itemModel_Coffee item))),
         Coffee_Name = '''', Coffee_Teaser = '''', Coffee_Description = '''',
         Coffee_Price = 0, Coffee_Image = ''''\<rparr>,
      OrderItem_Quantity = int_of_int64 (ValueInt64 (itemModel_Quantity item))\<rparr>"

text \<open>
  The struct literal \<open>orderItemModel{Coffee: orderItemCoffeeModel{...}, Quantity: ...}\<close> of
  Create, Read and Update. Building it panics when the price is a NaN.
\<close>

definition item_model :: "OrderItem \<Rightarrow> panic + orderItemModel" where
  "item_model orderItem =
     (case Float64Value (Coffee_Price (OrderItem_Coffee orderItem)) of
        Inl p \<Rightarrow> Inl p
      | Inr price \<Rightarrow> Inr
          \<lparr>itemModel_Coffee =
             \<lparr>coffeeModel_ID = Known (int64_of_int (Coffee_ID (OrderItem_Coffee orderItem))),
              coffeeModel_Name = Known (Coffee_Name (OrderItem_Coffee orderItem)),
              coffeeModel_Teaser = Known (Coffee_Teaser (OrderItem_Coffee orderItem)),
              coffeeModel_Description = Known (Coffee_Description (OrderItem_Coffee orderItem)),
              coffeeModel_Price = price,
              coffeeModel_Image = Known (Coffee_Image (OrderItem_Coffee orderItem))\<rparr>,
           itemModel_Quantity = Known (int64_of_int (OrderItem_Quantity orderItem))\<rparr>)"

text \<open>
  The loop \<open>for orderItemIndex, orderItem := range order.Items\<close> of Create, which assigns
  \<open>plan.Items[orderItemIndex]\<close>. The right-hand side is built first; then the assignment
  panics when the index is past the end of \<open>plan.Items\<close>.
\<close>

fun assign_items :: "orderItemModel list \<Rightarrow> nat \<Rightarrow> OrderItem list \<Rightarrow> panic + orderItemModel list" where
  "assign_items planItems orderItemIndex [] = Inr planItems"
| "assign_items planItems orderItemIndex (orderItem # rest) =
     (case item_model orderItem of
        Inl p \<Rightarrow> Inl p
      | Inr m \<Rightarrow>
          if orderItemIndex < length planItems
          then assign_items (planItems[orderItemIndex := m]) (Suc orderItemIndex) rest
          else Inl IndexOutOfRange)"

text \<open>
  The loop \<open>for _, item := range order.Items\<close> of Read and Update, which appends to the
  items collected so far.
\<close>

fun append_items :: "orderItemModel list \<Rightarrow> OrderItem list \<Rightarrow> panic + orderItemModel list" where
  "append_items stateItems [] = Inr stateItems"
| "append_items stateItems (item # rest) =
     (case item_model item of
        Inl p \<Rightarrow> Inl p
      | Inr m \<Rightarrow> append_items (stateItems @ [m]) rest)"

subsection \<open>Create\<close>

text \<open>\<open>now\<close> is the text \<open>time.Now().Format(time.RFC850)\<close>.\<close>

definition Create :: "'r Client \<Rightarrow> (orderResourceModel \<Rightarrow> Diagnostics) \<Rightarrow> string \<Rightarrow> CreateRequest \<Rightarrow> Response \<Rightarrow> 'r \<Rightarrow> 'r run" where
  "Create client stateSet now request response r =
     (let plan = Get_target (CreateRequest_Plan request);
          response = response\<lparr>Diagnostics :=
            Append (Diagnostics response) (Get_diags (CreateRequest_Plan request))\<rparr>
      in if HasError (Diagnostics response)
         then \<lparr>result = Returned response, remote = r, calls = []\<rparr>
         else
           let items = map wire_item (model_Items plan);
               answer = CreateOrder client items r
           in (case fst answer of
                 Inl err \<Rightarrow>
                   \<lparr>result = Returned (response\<lparr>Diagnostics :=
                      AddError (Diagnostics response) ''Error creating order''
                        (''An unexpected error was encountered trying to create the order.'' @ Error err)\<rparr>),
                    remote = snd answer, calls = [CallCreateOrder items]\<rparr>
               | Inr order \<Rightarrow>
                   (case assign_items (model_Items plan) 0 (Order_Items order) of
                      Inl p \<Rightarrow> \<lparr>result = Panic p, remote = snd answer, calls = [CallCreateOrder items]\<rparr>
                    | Inr planItems \<Rightarrow>
                        \<lparr>result = Returned (State_Set stateSet response
                           (plan\<lparr>model_ID := Known (Itoa (Order_ID order)),
                                 model_Items := planItems,
                                 model_LastUpdated := Known now\<rparr>)),
                         remote = snd answer, calls = [CallCreateOrder items]\<rparr>)))"

subsection \<open>Read\<close>

definition Read :: "'r Client \<Rightarrow> (orderResourceModel \<Rightarrow> Diagnostics) \<Rightarrow> ReadRequest \<Rightarrow> Response \<Rightarrow> 'r \<Rightarrow> 'r run" where
  "Read client stateSet request response r =
     (let state = Get_target (ReadRequest_State request);
          response = response\<lparr>Diagnostics :=
            Append (Diagnostics response) (Get_diags (ReadRequest_State request))\<rparr>
      in if HasError (Diagnostics response)
         then \<lparr>result = Returned response, remote = r, calls = []\<rparr>
         else
           let answer = GetOrder client (ValueString (model_ID state)) r
           in (case fst answer of
                 Inl err \<Rightarrow>
                   \<lparr>result = Returned (response\<lparr>Diagnostics :=
                      AddError (Diagnostics response) ''Error Reading HashiCups Order''
                        (''Could not read HashiCups order ID '' @ ValueString (model_ID state)
                           @ '': '' @ Error err)\<rparr>),
                    remote = snd answer, calls = [CallGetOrder (ValueString (model_ID state))]\<rparr>
               | Inr order \<Rightarrow>
                   (case append_items [] (Order_Items order) of
                      Inl p \<Rightarrow>
                        \<lparr>result = Panic p, remote = snd answer,
                         calls = [CallGetOrder (ValueString (model_ID state))]\<rparr>
                    | Inr stateItems \<Rightarrow>
                        \<lparr>result = Returned (State_Set stateSet response
                           (state\<lparr>model_Items := stateItems\<rparr>)),
                         remote = snd answer,
                         calls = [CallGetOrder (ValueString (model_ID state))]\<rparr>)))"

subsection \<open>Update\<close>

definition Update :: "'r Client \<Rightarrow> (orderResourceModel \<Rightarrow> Diagnostics) \<Rightarrow> string \<Rightarrow> UpdateRequest \<Rightarrow> Response \<Rightarrow> 'r \<Rightarrow> 'r run" where
  "Update client stateSet now req resp r =
     (let plan = Get_target (UpdateRequest_Plan req);
          resp = resp\<lparr>Diagnostics :=
            Append (Diagnostics resp) (Get_diags (UpdateRequest_Plan req))\<rparr>
      in if HasError (Diagnostics resp)
         then \<lparr>result = Returned resp, remote = r, calls = []\<rparr>
         else
           let hashicupsItems = map wire_item (model_Items plan);
               updated = UpdateOrder client (ValueString (model_ID plan)) hashicupsItems r
           in (case fst updated of
                 Inl err \<Rightarrow>
                   \<lparr>result = Returned (resp\<lparr>Diagnostics :=
                      AddError (Diagnostics resp) ''Error Updating HashiCups Order''
                        (''Could not update order, unexpected error: '' @ Error err)\<rparr>),
                    remote = snd updated,
                    calls = [CallUpdateOrder (ValueString (model_ID plan)) hashicupsItems]\<rparr>
               | Inr _ \<Rightarrow>
                   (let answer = GetOrder client (ValueString (model_ID plan)) (snd updated)
                    in (case fst answer of
                          Inl err \<Rightarrow>
                            \<lparr>result = Returned (resp\<lparr>Diagnostics :=
                               AddError (Diagnostics resp) ''Error Reading HashiCups Order''
                                 (''Could not read HashiCups order ID '' @ ValueString (model_ID plan)
                                    @ '': '' @ Error err)\<rparr>),
                             remote = snd answer,
                             calls = [CallUpdateOrder (ValueString (model_ID plan)) hashicupsItems,
                                      CallGetOrder (ValueString (model_ID plan))]\<rparr>
                        | Inr order \<Rightarrow>
                            (case append_items [] (Order_Items order) of
                               Inl p \<Rightarrow>
                                 \<lparr>result = Panic p, remote = snd answer,
                                  calls = [CallUpdateOrder (ValueString (model_ID plan)) hashicupsItems,
                                           CallGetOrder (ValueString (model_ID plan))]\<rparr>
                             | Inr planItems \<Rightarrow>
                                 \<lparr>result = Returned (State_Set stateSet resp
                                    (plan\<lparr>model_Items := planItems,
                                          model_LastUpdated := Known now\<rparr>)),
                                  remote = snd answer,
                                  calls = [CallUpdateOrder (ValueString (model_ID plan)) hashicupsItems,
                                           CallGetOrder (ValueString (model_ID plan))]\<rparr>)))))"

subsection \<open>Delete\<close>

text \<open>
  Delete never writes the response's state: the framework drops the stored object after
  a Delete that reported no error.
\<close>

definition Delete :: "'r Client \<Rightarrow> DeleteRequest \<Rightarrow> Response \<Rightarrow> 'r \<Rightarrow> 'r run" where
  "Delete client request response r =
     (let state = Get_target (DeleteRequest_State request);
          response = response\<lparr>Diagnostics :=
            Append (Diagnostics response) (Get_diags (DeleteRequest_State request))\<rparr>
      in if HasError (Diagnostics response)
         then \<lparr>result = Returned response, remote = r, calls = []\<rparr>
         else
           let answer = DeleteOrder client (ValueString (model_ID state)) r
           in (case fst answer of
                 Some err \<Rightarrow>
                   \<lparr>result = Returned (response\<lparr>Diagnostics :=
                      AddError (Diagnostics response) ''Error Deleting HashiCups Order''
                        (''Could not delete order, unexpected error: '' @ Error err)\<rparr>),
                    remote = snd answer, calls = [CallDeleteOrder (ValueString (model_ID state))]\<rparr>
               | None \<Rightarrow>
                   \<lparr>result = Returned response,
                    remote = snd answer, calls = [CallDeleteOrder (ValueString (model_ID state))]\<rparr>))"

subsection \<open>The schema's plan modifier of the id attribute\<close>

text \<open>
  The schema declares \<open>id\<close> as computed, with the plan modifier
  \<open>stringplanmodifier.UseStateForUnknown()\<close>: the planned value is taken from the prior
  state when there is a prior state, the planned value is unknown and the configured value
  is not unknown; otherwise the planned value stays. The arguments are the prior state of
  the resource, the configured value and the planned value of \<open>id\<close>.
\<close>

definition UseStateForUnknown :: "orderResourceModel option \<Rightarrow> string tfval \<Rightarrow> string tfval \<Rightarrow> string tfval" where
  "UseStateForUnknown priorState configValue planValue =
     (case priorState of
        None \<Rightarrow> planValue
      | Some state \<Rightarrow>
          if planValue \<noteq> Unknown then planValue
          else if configValue = Unknown then planValue
          else model_ID state)"

subsection \<open>Clients to run the handlers against\<close>

text \<open>A client with fixed answers, which leaves the remote state alone.\<close>

definition canned_Client :: "(error + Order) \<Rightarrow> (error + Order) \<Rightarrow> (error + Order) \<Rightarrow> error option \<Rightarrow> 'r Client" where
  "canned_Client created got updated deleted =
     \<lparr>CreateOrder = (\<lambda>items r. (created, r)),
      GetOrder = (\<lambda>orderID r. (got, r)),
      UpdateOrder = (\<lambda>orderID items r. (updated, r)),
      DeleteOrder = (\<lambda>orderID r. (deleted, r))\<rparr>"

text \<open>
  The remote system as far as deletion goes: the orders it holds, by identity key, and the
  keys whose deletion it rejects, with the status and body of the rejection.
\<close>

record Remote =
  Remote_orders :: "string \<rightharpoonup> Order"
  Remote_rejects :: "string \<rightharpoonup> nat \<times> string"

text \<open>
  Modelled from the spec: the client's \<open>DeleteOrder\<close>, which is not in
  order\_resource.go. Section 4.1: Delete "fails with RemoteError if the remote rejects
  deletion (e.g., referential constraint); succeeds (no error) if the object is already
  absent".
\<close>

definition spec_DeleteOrder :: "string \<Rightarrow> Remote \<Rightarrow> error option \<times> Remote" where
  "spec_DeleteOrder identityKey r =
     (case Remote_orders r identityKey of
        None \<Rightarrow> (None, r)
      | Some order \<Rightarrow>
          (case Remote_rejects r identityKey of
             Some (status, body) \<Rightarrow> (Some (RemoteError status body), r)
           | None \<Rightarrow> (None, r\<lparr>Remote_orders := (Remote_orders r)(identityKey := None)\<rparr>)))"

subsection \<open>Values the examples are run on\<close>

definition no_items_model :: orderResourceModel where
  "no_items_model = \<lparr>model_ID = Unknown, model_Items = [], model_LastUpdated = Unknown\<rparr>"

definition planned_item :: "int64 \<Rightarrow> int64 \<Rightarrow> orderItemModel" where
  "planned_item coffeeID quantity =
     \<lparr>itemModel_Coffee =
        \<lparr>coffeeModel_ID = Known coffeeID, coffeeModel_Name = Unknown, coffeeModel_Teaser = Unknown,
         coffeeModel_Description = Unknown, coffeeModel_Price = Unknown, coffeeModel_Image = Unknown\<rparr>,
      itemModel_Quantity = Known quantity\<rparr>"

text \<open>The prices are the bit patterns of 3.5 and of a quiet NaN.\<close>

definition latte :: "go_int \<Rightarrow> OrderItem" where
  "latte quantity =
     \<lparr>OrderItem_Coffee =
        \<lparr>Coffee_ID = 1, Coffee_Name = ''Packer Spiced Latte'', Coffee_Teaser = ''Packed with goodness'',
         Coffee_Description = '''', Coffee_Price = 0x400C000000000000, Coffee_Image = ''/packer.png''\<rparr>,
      OrderItem_Quantity = quantity\<rparr>"

definition latte_model :: "int64 \<Rightarrow> orderItemModel" where
  "latte_model quantity =
     \<lparr>itemModel_Coffee =
        \<lparr>coffeeModel_ID = Known 1, coffeeModel_Name = Known ''Packer Spiced Latte'',
         coffeeModel_Teaser = Known ''Packed with goodness'', coffeeModel_Description = Known '''',
         coffeeModel_Price = Known 0x400C000000000000, coffeeModel_Image = Known ''/packer.png''\<rparr>,
      itemModel_Quantity = Known quantity\<rparr>"

definition nan_latte :: OrderItem where
  "nan_latte =
     \<lparr>OrderItem_Coffee =
        \<lparr>Coffee_ID = 1, Coffee_Name = ''Packer Spiced Latte'', Coffee_Teaser = ''Packed with goodness'',
         Coffee_Description = '''', Coffee_Price = 0x7FF8000000000000, Coffee_Image = ''/packer.png''\<rparr>,
      OrderItem_Quantity = 2\<rparr>"

definition accepts :: "orderResourceModel \<Rightarrow> Diagnostics" where
  "accepts val = []"

definition decoded :: "orderResourceModel \<Rightarrow> tfsdk_data" where
  "decoded m = \<lparr>Get_diags = [], Get_target = m\<rparr>"

definition fresh_response :: "orderResourceModel option \<Rightarrow> Response" where
  "fresh_response state = \<lparr>State = state, Diagnostics = []\<rparr>"

definition order42 :: orderResourceModel where
  "order42 = \<lparr>model_ID = Known ''42'', model_Items = [latte_model 2],
     model_LastUpdated = Known ''Sunday, 01-Nov-26 10:00:00 UTC''\<rparr>"

definition failing_Client :: "error \<Rightarrow> 'r Client" where
  "failing_Client err = canned_Client (Inl err) (Inl err) (Inl err) (Some err)"

definition create_request :: CreateRequest where
  "create_request = \<lparr>CreateRequest_Plan = decoded (no_items_model\<lparr>model_Items := [planned_item 1 2]\<rparr>)\<rparr>"

definition update_request :: UpdateRequest where
  "update_request = \<lparr>UpdateRequest_Plan = decoded (order42\<lparr>model_Items := [planned_item 1 3]\<rparr>),
     UpdateRequest_State = decoded order42\<rparr>"

definition answering_Client :: "Order \<Rightarrow> 'r Client" where
  "answering_Client order = canned_Client (Inr order) (Inr order) (Inr order) None"

definition unchanged_request :: UpdateRequest where
  "unchanged_request = \<lparr>UpdateRequest_Plan = decoded order42, UpdateRequest_State = decoded order42\<rparr>"

definition imported_abc :: orderResourceModel where
  "imported_abc = \<lparr>model_ID = Known ''abc'', model_Items = [], model_LastUpdated = Null\<rparr>"

definition zero_quantity_request :: CreateRequest where
  "zero_quantity_request =
     \<lparr>CreateRequest_Plan = decoded (no_items_model\<lparr>model_Items := [planned_item 1 0]\<rparr>)\<rparr>"

definition remote42 :: Remote where
  "remote42 = \<lparr>Remote_orders = [''42'' \<mapsto> \<lparr>Order_ID = 42, Order_Items = [latte 2]\<rparr>],
     Remote_rejects = Map.empty\<rparr>"

subsection \<open>What the server filled in\<close>

text \<open>
  Two notions the properties are stated with: the price of an item of a response is a
  NaN; and the model item whose every field is known and is the value the server gave.
\<close>

abbreviation nan_price :: "OrderItem \<Rightarrow> bool" where
  "nan_price orderItem \<equiv> isNaN (Coffee_Price (OrderItem_Coffee orderItem))"

abbreviation server_item :: "OrderItem \<Rightarrow> orderItemModel" where
  "server_item orderItem \<equiv>
     \<lparr>itemModel_Coffee =
        \<lparr>coffeeModel_ID = Known (Coffee_ID (OrderItem_Coffee orderItem)),
         coffeeModel_Name = Known (Coffee_Name (OrderItem_Coffee orderItem)),
         coffeeModel_Teaser = Known (Coffee_Teaser (OrderItem_Coffee orderItem)),
         coffeeModel_Description = Known (Coffee_Description (OrderItem_Coffee orderItem)),
         coffeeModel_Price = Known (Coffee_Price (OrderItem_Coffee orderItem)),
         coffeeModel_Image = Known (Coffee_Image (OrderItem_Coffee orderItem))\<rparr>,
      itemModel_Quantity = Known (OrderItem_Quantity orderItem)\<rparr>"

section \<open>Properties\<close>

subsection \<open>Diagnostics\<close>

lemma HasError_append: "HasError (xs @ ys) = (HasError xs \<or> HasError ys)"
  by (simp add: HasError_def list_ex_iff) blast

lemma HasError_mem: "d \<in> set diags \<Longrightarrow> diag_Severity d = SeverityError \<Longrightarrow> HasError diags"
  by (auto simp: HasError_def list_ex_iff)

lemma HasError_Append: "HasError (Append diags new) = (HasError diags \<or> HasError new)"
proof (induction new arbitrary: diags)
  case Nil
  then show ?case by (simp add: HasError_def)
next
  case (Cons d new)
  have "HasError (if d \<in> set diags then diags else diags @ [d]) = (HasError diags \<or> diag_Severity d = SeverityError)"
    by (auto simp: HasError_def list_ex_iff)
  moreover have "HasError (d # new) = (diag_Severity d = SeverityError \<or> HasError new)"
    by (simp add: HasError_def)
  ultimately show ?case using Cons.IH by auto
qed

lemma HasError_AddError: "HasError (AddError diags summary detail)"
  unfolding AddError_def HasError_Append by (simp add: HasError_def)

subsection \<open>The item loops\<close>

lemma isNaN_examples: "\<not> isNaN 0x400C000000000000" "isNaN 0x7FF8000000000000" "\<not> isNaN 0"
  by (simp_all add: isNaN_def)

lemma item_model_eq:
  "item_model orderItem = (if nan_price orderItem then Inl FloatNaN else Inr (server_item orderItem))"
  by (simp add: item_model_def Float64Value_def int64_of_int_def)

lemma item_model_latte: "item_model (latte q) = Inr (latte_model q)"
  by (simp add: item_model_eq latte_def latte_model_def isNaN_examples)

lemma item_model_nan: "item_model nan_latte = Inl FloatNaN"
  by (simp add: item_model_eq nan_latte_def isNaN_examples)

lemma nan_price_examples: "\<not> nan_price (latte q)" "nan_price nan_latte"
  by (simp_all add: latte_def nan_latte_def isNaN_examples)

lemma server_item_latte: "server_item (latte q) = latte_model q"
  by (simp add: latte_def latte_model_def)

lemma append_items_eq:
  "append_items stateItems items =
     (if \<exists>item \<in> set items. nan_price item then Inl FloatNaN
      else Inr (stateItems @ map server_item items))"
  by (induction items arbitrary: stateItems) (simp_all add: item_model_eq)

lemma assign_items_eq:
  "i \<le> length ps \<Longrightarrow> assign_items ps i os =
     (if \<exists>orderItem \<in> set (take (Suc (length ps) - i) os). nan_price orderItem then Inl FloatNaN
      else if i + length os \<le> length ps
      then Inr (take i ps @ map server_item os @ drop (i + length os) ps)
      else Inl IndexOutOfRange)"
proof (induction os arbitrary: ps i)
  case Nil
  then show ?case by simp
next
  case (Cons a os)
  have first: "take (Suc (length ps) - i) (a # os) = a # take (length ps - i) os"
    using Cons.prems by (simp add: Suc_diff_le)
  show ?case
  proof (cases "nan_price a")
    case True
    then show ?thesis by (simp add: first item_model_eq)
  next
    case notnan: False
    show ?thesis
    proof (cases "i < length ps")
      case False
      with Cons.prems have "i = length ps" by simp
      then show ?thesis using notnan by (simp add: item_model_eq)
    next
      case True
      then have le: "Suc i \<le> length (ps[i := server_item a])" by simp
      have t: "take (Suc i) (ps[i := server_item a]) = take i ps @ [server_item a]"
        using True by (simp add: take_Suc_conv_app_nth)
      have d: "drop (Suc (i + length os)) (ps[i := server_item a]) = drop (Suc (i + length os)) ps"
        by simp
      show ?thesis using True notnan
        by (simp add: item_model_eq Cons.IH [OF le] t d first)
    qed
  qed
qed

lemma assign_items_0:
  "assign_items ps 0 os =
     (if \<exists>orderItem \<in> set (take (Suc (length ps)) os). nan_price orderItem then Inl FloatNaN
      else if length os \<le> length ps then Inr (map server_item os @ drop (length os) ps)
      else Inl IndexOutOfRange)"
  using assign_items_eq [of 0 ps os] by simp

lemma State_Set_simps:
  "State (State_Set stateSet response val) = (if HasError (stateSet val) then State response else Some val)"
  "Diagnostics (State_Set stateSet response val) = Append (Diagnostics response) (stateSet val)"
  by (simp_all add: State_Set_def Let_def)

lemma State_Set_accepts: "State_Set accepts response val = response\<lparr>State := Some val\<rparr>"
  by (simp add: State_Set_def accepts_def HasError_def)

subsection \<open>Itoa loses nothing\<close>

lemma digit_val_digit_char: "d < 10 \<Longrightarrow> digit_val (digit_char d) = d"
  by (simp add: digit_val_def digit_char_def)

lemma decimal_value_snoc: "decimal_value (s @ [c]) = 10 * decimal_value s + digit_val c"
  by (simp add: decimal_value_def)

lemma decimal_value_digits: "decimal_value (digits n) = n"
proof (induction n rule: digits.induct)
  case (1 n)
  show ?case
  proof (cases "n < 10")
    case True
    then show ?thesis by (simp add: digits.simps [of n] decimal_value_def digit_val_digit_char)
  next
    case False
    then show ?thesis using 1
      by (simp add: digits.simps [of n] decimal_value_snoc digit_val_digit_char)
  qed
qed

lemma digit_char_not_minus: "d < 10 \<Longrightarrow> digit_char d \<noteq> CHR ''-''"
proof
  assume d: "d < 10" and eq: "digit_char d = CHR ''-''"
  then have "(of_char (digit_char d) :: nat) = of_char CHR ''-''" by simp
  with d show False by (simp add: digit_char_def)
qed

lemma digits_head: "\<exists>c rest. digits n = c # rest \<and> c \<noteq> CHR ''-''"
proof (induction n rule: digits.induct)
  case (1 n)
  show ?case
  proof (cases "n < 10")
    case True
    then show ?thesis by (simp add: digits.simps [of n] digit_char_not_minus)
  next
    case False
    then show ?thesis using 1 by (auto simp: digits.simps [of n])
  qed
qed

lemma read_decimal_digits: "read_decimal (digits n) = int n"
proof -
  obtain c rest where eq: "digits n = c # rest" and c: "c \<noteq> CHR ''-''"
    using digits_head [of n] by blast
  then have "read_decimal (digits n) = int (decimal_value (digits n))"
    by (simp add: read_decimal_def)
  then show ?thesis by (simp add: decimal_value_digits)
qed

lemma read_decimal_Itoa: "read_decimal (Itoa i) = sint i"
  by (simp add: Itoa_def read_decimal_digits) (simp add: read_decimal_def decimal_value_digits)

lemma digit_chars: "map digit_char [0, 1, 2, 3, 4, 5, 6, 7, 8, 9] = ''0123456789''"
  by code_simp

lemma digit_char_in: "d < 10 \<Longrightarrow> digit_char d \<in> set ''0123456789''"
proof -
  assume "d < 10"
  then have "d \<in> set [0, 1, 2, 3, 4, 5, 6, 7, 8, 9]" by auto
  then have "digit_char d \<in> digit_char ` set [0, 1, 2, 3, 4, 5, 6, 7, 8, 9]"
    by (rule imageI)
  then have "digit_char d \<in> set (map digit_char [0, 1, 2, 3, 4, 5, 6, 7, 8, 9])"
    by (simp only: set_map)
  then show ?thesis by (simp only: digit_chars)
qed

lemma digit_char_zero: "d < 10 \<Longrightarrow> digit_char d = CHR ''0'' \<Longrightarrow> d = 0"
proof -
  assume d: "d < 10" and eq: "digit_char d = CHR ''0''"
  then have "(of_char (digit_char d) :: nat) = of_char CHR ''0''" by simp
  with d show "d = 0" by (simp add: digit_char_def)
qed

lemma digits_0: "digits 0 = ''0''"
  by code_simp

lemma digits_nonempty: "digits n \<noteq> []"
  using digits_head [of n] by auto

lemma digits_set: "set (digits n) \<subseteq> set ''0123456789''"
proof (induction n rule: digits.induct)
  case (1 n)
  show ?case
  proof (cases "n < 10")
    case True
    then show ?thesis using digit_char_in [of n] by (simp add: digits.simps [of n])
  next
    case False
    then have "set (digits (n div 10)) \<subseteq> set ''0123456789''" using 1 by simp
    moreover have "digit_char (n mod 10) \<in> set ''0123456789''" by (rule digit_char_in) simp
    ultimately show ?thesis using False by (simp add: digits.simps [of n])
  qed
qed

lemma digits_no_leading_zero: "0 < n \<Longrightarrow> hd (digits n) \<noteq> CHR ''0''"
proof (induction n rule: digits.induct)
  case (1 n)
  show ?case
  proof (cases "n < 10")
    case True
    then show ?thesis using "1.prems" digit_char_zero [of n] by (auto simp: digits.simps [of n])
  next
    case False
    then have "0 < n div 10" by simp
    with False 1 have "hd (digits (n div 10)) \<noteq> CHR ''0''" by simp
    then show ?thesis using False digits_nonempty [of "n div 10"] by (simp add: digits.simps [of n])
  qed
qed

lemma Itoa_shape:
  "\<exists>ds. Itoa i = (if sint i < 0 then ''-'' else '''') @ ds \<and> ds \<noteq> []
     \<and> set ds \<subseteq> set ''0123456789'' \<and> (hd ds = CHR ''0'' \<longrightarrow> ds = ''0'')
     \<and> int (decimal_value ds) = \<bar>sint i\<bar>"
proof -
  let ?n = "nat \<bar>sint i\<bar>"
  have "Itoa i = (if sint i < 0 then ''-'' else '''') @ digits ?n"
    by (simp add: Itoa_def)
  moreover have "hd (digits ?n) = CHR ''0'' \<longrightarrow> digits ?n = ''0''"
    using digits_no_leading_zero [of ?n] digits_0 by (cases "?n = 0") auto
  moreover have "int (decimal_value (digits ?n)) = \<bar>sint i\<bar>"
    by (simp add: decimal_value_digits)
  ultimately show ?thesis using digits_nonempty [of ?n] digits_set [of ?n] by blast
qed

subsection \<open>A failed remote call leaves the stored state as it was\<close>

text \<open>
  Claim C1. Whichever handler runs (Create, Read, Update, Delete) and whichever of its
  remote calls fails, the handler returns, reports an error, and the state held by the
  response is the state it held on entry: after a failed CreateOrder nothing is stored,
  after a failed UpdateOrder, or a failed GetOrder that follows it, the state from before
  the update is kept as it was.
\<close>

theorem failed_call_keeps_state:
  fixes client :: "'r Client"
  shows
  "(fst (CreateOrder client (map wire_item (model_Items (Get_target (CreateRequest_Plan createRequest)))) r) = Inl err \<longrightarrow>
      (\<exists>response'. result (Create client stateSet now createRequest response r) = Returned response'
         \<and> State response' = State response \<and> HasError (Diagnostics response')))
   \<and> (fst (GetOrder client (ValueString (model_ID (Get_target (ReadRequest_State readRequest)))) r) = Inl err \<longrightarrow>
      (\<exists>response'. result (Read client stateSet readRequest response r) = Returned response'
         \<and> State response' = State response \<and> HasError (Diagnostics response')))
   \<and> (fst (UpdateOrder client (ValueString (model_ID (Get_target (UpdateRequest_Plan updateRequest))))
              (map wire_item (model_Items (Get_target (UpdateRequest_Plan updateRequest)))) r) = Inl err \<longrightarrow>
      (\<exists>response'. result (Update client stateSet now updateRequest response r) = Returned response'
         \<and> State response' = State response \<and> HasError (Diagnostics response')))
   \<and> (fst (GetOrder client (ValueString (model_ID (Get_target (UpdateRequest_Plan updateRequest))))
              (snd (UpdateOrder client (ValueString (model_ID (Get_target (UpdateRequest_Plan updateRequest))))
                 (map wire_item (model_Items (Get_target (UpdateRequest_Plan updateRequest)))) r))) = Inl err \<longrightarrow>
      (\<exists>response'. result (Update client stateSet now updateRequest response r) = Returned response'
         \<and> State response' = State response \<and> HasError (Diagnostics response')))
   \<and> (fst (DeleteOrder client (ValueString (model_ID (Get_target (DeleteRequest_State deleteRequest)))) r) = Some err \<longrightarrow>
      (\<exists>response'. result (Delete client deleteRequest response r) = Returned response'
         \<and> State response' = State response \<and> HasError (Diagnostics response')))"
proof (intro conjI impI)
  assume "fst (CreateOrder client (map wire_item (model_Items (Get_target (CreateRequest_Plan createRequest)))) r) = Inl err"
  then show "\<exists>response'. result (Create client stateSet now createRequest response r) = Returned response'
         \<and> State response' = State response \<and> HasError (Diagnostics response')"
    by (simp add: Create_def Let_def HasError_AddError)
next
  assume "fst (GetOrder client (ValueString (model_ID (Get_target (ReadRequest_State readRequest)))) r) = Inl err"
  then show "\<exists>response'. result (Read client stateSet readRequest response r) = Returned response'
         \<and> State response' = State response \<and> HasError (Diagnostics response')"
    by (simp add: Read_def Let_def HasError_AddError)
next
  assume "fst (UpdateOrder client (ValueString (model_ID (Get_target (UpdateRequest_Plan updateRequest))))
              (map wire_item (model_Items (Get_target (UpdateRequest_Plan updateRequest)))) r) = Inl err"
  then show "\<exists>response'. result (Update client stateSet now updateRequest response r) = Returned response'
         \<and> State response' = State response \<and> HasError (Diagnostics response')"
    by (simp add: Update_def Let_def HasError_AddError)
next
  assume "fst (GetOrder client (ValueString (model_ID (Get_target (UpdateRequest_Plan updateRequest))))
              (snd (UpdateOrder client (ValueString (model_ID (Get_target (UpdateRequest_Plan updateRequest))))
                 (map wire_item (model_Items (Get_target (UpdateRequest_Plan updateRequest)))) r))) = Inl err"
  then show "\<exists>response'. result (Update client stateSet now updateRequest response r) = Returned response'
         \<and> State response' = State response \<and> HasError (Diagnostics response')"
    by (simp add: Update_def Let_def HasError_AddError split: sum.split)
next
  assume "fst (DeleteOrder client (ValueString (model_ID (Get_target (DeleteRequest_State deleteRequest)))) r) = Some err"
  then show "\<exists>response'. result (Delete client deleteRequest response r) = Returned response'
         \<and> State response' = State response \<and> HasError (Diagnostics response')"
    by (simp add: Delete_def Let_def HasError_AddError)
qed

theorem failed_call_keeps_state_witness:
  "(\<exists>response'. result (Create (failing_Client (RemoteError 422 ''unprocessable'')) accepts ''now'' create_request
       (fresh_response None) ()) = Returned response' \<and> State response' = None
       \<and> HasError (Diagnostics response'))
   \<and> (\<exists>response'. result (Update (failing_Client (RemoteError 422 ''unprocessable'')) accepts ''now'' update_request
       (fresh_response (Some order42)) ()) = Returned response' \<and> State response' = Some order42
       \<and> HasError (Diagnostics response'))
   \<and> (\<exists>response'. result (Read (failing_Client (RemoteError 422 ''unprocessable'')) accepts
       \<lparr>ReadRequest_State = decoded order42\<rparr>
       (fresh_response (Some order42)) ()) = Returned response' \<and> State response' = Some order42
       \<and> HasError (Diagnostics response'))
   \<and> (\<exists>response'. result (Delete (failing_Client (RemoteError 422 ''unprocessable''))
       \<lparr>DeleteRequest_State = decoded order42\<rparr>
       (fresh_response (Some order42)) ()) = Returned response' \<and> State response' = Some order42
       \<and> HasError (Diagnostics response'))"
proof -
  have calls_fail:
    "fst (CreateOrder (failing_Client (RemoteError 422 ''unprocessable'') :: unit Client) items ()) = Inl (RemoteError 422 ''unprocessable'')"
    "fst (GetOrder (failing_Client (RemoteError 422 ''unprocessable'') :: unit Client) orderID ()) = Inl (RemoteError 422 ''unprocessable'')"
    "fst (UpdateOrder (failing_Client (RemoteError 422 ''unprocessable'') :: unit Client) orderID items ()) = Inl (RemoteError 422 ''unprocessable'')"
    "fst (DeleteOrder (failing_Client (RemoteError 422 ''unprocessable'') :: unit Client) orderID ()) = Some (RemoteError 422 ''unprocessable'')"
    for items orderID
    by (simp_all add: failing_Client_def canned_Client_def)
  have absent: "State (fresh_response None) = None"
    and present: "State (fresh_response (Some order42)) = Some order42"
    by (simp_all add: fresh_response_def)
  show ?thesis
    using failed_call_keeps_state [where client = "failing_Client (RemoteError 422 ''unprocessable'') :: unit Client"
        and err = "RemoteError 422 ''unprocessable''" and stateSet = accepts and now = "''now''" and r = "()"
        and response = "fresh_response None" and createRequest = create_request
        and readRequest = "\<lparr>ReadRequest_State = decoded order42\<rparr>"
        and updateRequest = update_request
        and deleteRequest = "\<lparr>DeleteRequest_State = decoded order42\<rparr>"]
      failed_call_keeps_state [where client = "failing_Client (RemoteError 422 ''unprocessable'') :: unit Client"
        and err = "RemoteError 422 ''unprocessable''" and stateSet = accepts and now = "''now''" and r = "()"
        and response = "fresh_response (Some order42)" and createRequest = create_request
        and readRequest = "\<lparr>ReadRequest_State = decoded order42\<rparr>"
        and updateRequest = update_request
        and deleteRequest = "\<lparr>DeleteRequest_State = decoded order42\<rparr>"]
    unfolding calls_fail absent present by simp
qed

subsection \<open>Facts about the handlers shared by the claims\<close>

lemma wire_item_fields:
  "Coffee_ID (OrderItem_Coffee (wire_item item)) = ValueInt64 (coffeeModel_ID (itemModel_Coffee item))"
  "OrderItem_Quantity (wire_item item) = ValueInt64 (itemModel_Quantity item)"
  by (simp_all add: wire_item_def int_of_int64_def)

lemma Itoa_42: "Itoa 42 = ''42''"
  by code_simp

lemma Itoa_7: "Itoa 7 = ''7''"
  by code_simp

lemma no_error_examples:
  "\<not> HasError (Diagnostics (fresh_response state))"
  "\<not> HasError (Get_diags (decoded m))"
  "\<not> HasError (accepts val)"
  by (simp_all add: fresh_response_def decoded_def accepts_def HasError_def)

text \<open>
  A Create that returned without an error diagnostic decoded its plan, had its CreateOrder
  answered, built every item of the response, did not run past the end of \<open>plan.Items\<close>,
  and had its model stored.
\<close>

lemma Create_returned_ok:
  fixes client :: "'r Client"
  assumes returned: "result (Create client stateSet now request response r) = Returned response'"
    and ok: "\<not> HasError (Diagnostics response')"
  shows "\<exists>order. fst (CreateOrder client (map wire_item (model_Items (Get_target (CreateRequest_Plan request)))) r) = Inr order
     \<and> calls (Create client stateSet now request response r) =
         [CallCreateOrder (map wire_item (model_Items (Get_target (CreateRequest_Plan request))))]
     \<and> length (Order_Items order) \<le> length (model_Items (Get_target (CreateRequest_Plan request)))
     \<and> (\<forall>orderItem \<in> set (Order_Items order). \<not> nan_price orderItem)
     \<and> State response' = Some
         \<lparr>model_ID = Known (Itoa (Order_ID order)),
          model_Items = map server_item (Order_Items order)
            @ drop (length (Order_Items order)) (model_Items (Get_target (CreateRequest_Plan request))),
          model_LastUpdated = Known now\<rparr>"
proof -
  let ?plan = "Get_target (CreateRequest_Plan request)"
  let ?diags = "Append (Diagnostics response) (Get_diags (CreateRequest_Plan request))"
  have decoded: "\<not> HasError ?diags"
    using returned ok by (auto simp: Create_def Let_def)
  obtain order where order: "fst (CreateOrder client (map wire_item (model_Items ?plan)) r) = Inr order"
    using returned ok decoded
    by (cases "fst (CreateOrder client (map wire_item (model_Items ?plan)) r)")
       (auto simp: Create_def Let_def HasError_AddError)
  obtain planItems where loop: "assign_items (model_Items ?plan) 0 (Order_Items order) = Inr planItems"
    using returned decoded order
    by (cases "assign_items (model_Items ?plan) 0 (Order_Items order)") (auto simp: Create_def Let_def)
  have len: "length (Order_Items order) \<le> length (model_Items ?plan)"
    using loop by (auto simp: assign_items_0 split: if_splits)
  then have nonan: "\<forall>orderItem \<in> set (Order_Items order). \<not> nan_price orderItem"
    using loop by (auto simp: assign_items_0 split: if_splits)
  have items: "planItems = map server_item (Order_Items order)
      @ drop (length (Order_Items order)) (model_Items ?plan)"
    using loop by (auto simp: assign_items_0 split: if_splits)
  let ?val = "?plan\<lparr>model_ID := Known (Itoa (Order_ID order)), model_Items := planItems,
     model_LastUpdated := Known now\<rparr>"
  have resp: "response' = State_Set stateSet (response\<lparr>Diagnostics := ?diags\<rparr>) ?val"
    using returned decoded order loop by (simp add: Create_def Let_def)
  then have "\<not> HasError (stateSet ?val)"
    using ok by (simp add: State_Set_simps HasError_Append)
  then have st: "State response' = Some ?val"
    using resp by (simp add: State_Set_simps)
  have cs: "calls (Create client stateSet now request response r) = [CallCreateOrder (map wire_item (model_Items ?plan))]"
    using decoded order by (simp add: Create_def Let_def split: sum.split)
  show ?thesis using order cs len nonan st items by auto
qed

lemma Create_example:
  "Create (answering_Client \<lparr>Order_ID = 42, Order_Items = [latte 2]\<rparr>) accepts ''now''
     create_request (fresh_response None) r =
   \<lparr>result = Returned \<lparr>State = Some \<lparr>model_ID = Known ''42'',
         model_Items = [latte_model 2], model_LastUpdated = Known ''now''\<rparr>, Diagnostics = []\<rparr>,
    remote = r, calls = [CallCreateOrder (map wire_item [planned_item 1 2])]\<rparr>"
  by (simp add: Create_def Let_def answering_Client_def canned_Client_def create_request_def decoded_def
      fresh_response_def no_items_model_def HasError_def Itoa_42 item_model_latte State_Set_accepts)

lemma example_ok: "\<not> HasError (Diagnostics \<lparr>State = state, Diagnostics = []\<rparr>)"
  by (simp add: HasError_def)

subsection \<open>Refresh when the remote call fails\<close>

text \<open>
  Claim C2, as the code has it. Read treats every failure of GetOrder alike, a
  NotFoundError included: the state held by the response is left as it was (the entity
  stays present), one error diagnostic "Error Reading HashiCups Order" is added, and
  GetOrder is the only call made. Nothing is removed from the state and no drift is
  reported.
\<close>

theorem Read_failure_keeps_entity:
  fixes client :: "'r Client"
  assumes "\<not> HasError (Diagnostics response)"
    and "\<not> HasError (Get_diags (ReadRequest_State request))"
    and "fst (GetOrder client (ValueString (model_ID (Get_target (ReadRequest_State request)))) r) = Inl err"
  shows "Read client stateSet request response r =
     \<lparr>result = Returned \<lparr>State = State response,
          Diagnostics = AddError (Append (Diagnostics response) (Get_diags (ReadRequest_State request)))
            ''Error Reading HashiCups Order''
            (''Could not read HashiCups order ID ''
               @ ValueString (model_ID (Get_target (ReadRequest_State request))) @ '': '' @ Error err)\<rparr>,
       remote = snd (GetOrder client (ValueString (model_ID (Get_target (ReadRequest_State request)))) r),
       calls = [CallGetOrder (ValueString (model_ID (Get_target (ReadRequest_State request))))]\<rparr>"
  using assms by (simp add: Read_def Let_def HasError_Append)

theorem Read_failure_keeps_entity_witness:
  "Read (failing_Client (NotFoundError ''order not found'')) accepts \<lparr>ReadRequest_State = decoded order42\<rparr>
       (fresh_response (Some order42)) () =
     \<lparr>result = Returned \<lparr>State = Some order42,
          Diagnostics = [\<lparr>diag_Severity = SeverityError, diag_Summary = ''Error Reading HashiCups Order'',
            diag_Detail = ''Could not read HashiCups order ID 42: order not found''\<rparr>]\<rparr>,
       remote = (), calls = [CallGetOrder ''42'']\<rparr>"
proof -
  have "\<not> HasError (Diagnostics (fresh_response (Some order42)))"
    by (rule no_error_examples)
  moreover have "\<not> HasError (Get_diags (ReadRequest_State \<lparr>ReadRequest_State = decoded order42\<rparr>))"
    by (simp add: no_error_examples)
  moreover have "fst (GetOrder (failing_Client (NotFoundError ''order not found'') :: unit Client)
      (ValueString (model_ID (Get_target (ReadRequest_State \<lparr>ReadRequest_State = decoded order42\<rparr>)))) ())
      = Inl (NotFoundError ''order not found'')"
    by (simp add: failing_Client_def canned_Client_def)
  ultimately show ?thesis
    using Read_failure_keeps_entity [where response = "fresh_response (Some order42)"
        and request = "\<lparr>ReadRequest_State = decoded order42\<rparr>"
        and client = "failing_Client (NotFoundError ''order not found'') :: unit Client"
        and r = "()" and err = "NotFoundError ''order not found''" and stateSet = accepts]
    by (simp add: failing_Client_def canned_Client_def decoded_def fresh_response_def order42_def AddError_def)
qed

text \<open>
  The claim as written fails: a refresh answered with NotFoundError leaves the order in
  the state.
\<close>

theorem Read_not_found_counterexample:
  "result (Read (failing_Client (NotFoundError ''order not found'')) accepts \<lparr>ReadRequest_State = decoded order42\<rparr>
       (fresh_response (Some order42)) ()) =
     Returned \<lparr>State = Some order42,
       Diagnostics = [\<lparr>diag_Severity = SeverityError, diag_Summary = ''Error Reading HashiCups Order'',
         diag_Detail = ''Could not read HashiCups order ID 42: order not found''\<rparr>]\<rparr>"
  by (simp add: Read_def Let_def failing_Client_def canned_Client_def decoded_def fresh_response_def
      order42_def AddError_def HasError_def)

subsection \<open>Update calls the remote whatever the plan\<close>

text \<open>
  Claim C3, as the code has it. Update makes no comparison of the plan with the prior
  state: whenever the plan decodes, it calls UpdateOrder with the plan's key and items,
  and then GetOrder if UpdateOrder was answered. The call list is never empty, also when
  the plan equals the prior state.
\<close>

theorem Update_always_calls_remote:
  fixes client :: "'r Client"
  assumes "\<not> HasError (Diagnostics resp)" and "\<not> HasError (Get_diags (UpdateRequest_Plan req))"
  shows "calls (Update client stateSet now req resp r) =
     CallUpdateOrder (ValueString (model_ID (Get_target (UpdateRequest_Plan req))))
         (map wire_item (model_Items (Get_target (UpdateRequest_Plan req))))
     # (case fst (UpdateOrder client (ValueString (model_ID (Get_target (UpdateRequest_Plan req))))
                   (map wire_item (model_Items (Get_target (UpdateRequest_Plan req)))) r) of
          Inl err \<Rightarrow> []
        | Inr updated \<Rightarrow> [CallGetOrder (ValueString (model_ID (Get_target (UpdateRequest_Plan req))))])"
  using assms by (simp add: Update_def Let_def HasError_Append split: sum.split)

theorem Update_always_calls_remote_witness:
  "calls (Update (answering_Client \<lparr>Order_ID = 42, Order_Items = [latte 2]\<rparr>) accepts ''now'' unchanged_request
        (fresh_response (Some order42)) ()) =
     [CallUpdateOrder ''42'' [wire_item (latte_model 2)], CallGetOrder ''42'']"
proof -
  have "\<not> HasError (Diagnostics (fresh_response (Some order42)))"
    by (rule no_error_examples)
  moreover have "\<not> HasError (Get_diags (UpdateRequest_Plan unchanged_request))"
    by (simp add: unchanged_request_def no_error_examples)
  ultimately show ?thesis
    using Update_always_calls_remote [where resp = "fresh_response (Some order42)" and req = unchanged_request
        and client = "answering_Client \<lparr>Order_ID = 42, Order_Items = [latte 2]\<rparr> :: unit Client"
        and now = "''now''" and r = "()" and stateSet = accepts]
    by (simp add: unchanged_request_def answering_Client_def canned_Client_def decoded_def order42_def)
qed

text \<open>
  The claim as written fails: with a plan equal to the prior state, Update makes two
  remote calls.
\<close>

theorem Update_same_desired_counterexample:
  "UpdateRequest_Plan unchanged_request = UpdateRequest_State unchanged_request
   \<and> calls (Update (answering_Client \<lparr>Order_ID = 42, Order_Items = [latte 2]\<rparr>) accepts ''now'' unchanged_request
        (fresh_response (Some order42)) ()) =
     [CallUpdateOrder ''42'' [wire_item (latte_model 2)], CallGetOrder ''42'']"
  by (simp add: Update_def Let_def unchanged_request_def answering_Client_def canned_Client_def decoded_def
      fresh_response_def order42_def HasError_def split: sum.split)

subsection \<open>A successful Create\<close>




subsection \<open>Facts about Read, Update and Delete shared by the claims\<close>

text \<open>
  An Update that returned without an error diagnostic decoded its plan, had UpdateOrder
  and then GetOrder answered, built every item of the answer, and had its model stored.
\<close>

lemma Update_returned_ok:
  fixes client :: "'r Client"
  assumes returned: "result (Update client stateSet now req resp r) = Returned resp'"
    and ok: "\<not> HasError (Diagnostics resp')"
  shows "\<exists>updated order.
       fst (UpdateOrder client (ValueString (model_ID (Get_target (UpdateRequest_Plan req))))
              (map wire_item (model_Items (Get_target (UpdateRequest_Plan req)))) r) = Inr updated
     \<and> fst (GetOrder client (ValueString (model_ID (Get_target (UpdateRequest_Plan req))))
              (snd (UpdateOrder client (ValueString (model_ID (Get_target (UpdateRequest_Plan req))))
                 (map wire_item (model_Items (Get_target (UpdateRequest_Plan req)))) r))) = Inr order
     \<and> (\<forall>item \<in> set (Order_Items order). \<not> nan_price item)
     \<and> State resp' = Some
         ((Get_target (UpdateRequest_Plan req))
            \<lparr>model_Items := map server_item (Order_Items order), model_LastUpdated := Known now\<rparr>)"
proof -
  let ?plan = "Get_target (UpdateRequest_Plan req)"
  let ?diags = "Append (Diagnostics resp) (Get_diags (UpdateRequest_Plan req))"
  let ?upd = "UpdateOrder client (ValueString (model_ID ?plan)) (map wire_item (model_Items ?plan)) r"
  let ?get = "GetOrder client (ValueString (model_ID ?plan)) (snd ?upd)"
  have decoded: "\<not> HasError ?diags"
    using returned ok by (auto simp: Update_def Let_def)
  obtain updated where upd: "fst ?upd = Inr updated"
    using returned ok decoded
    by (cases "fst ?upd") (auto simp: Update_def Let_def HasError_AddError)
  obtain order where get: "fst ?get = Inr order"
    using returned ok decoded upd
    by (cases "fst ?get") (auto simp: Update_def Let_def HasError_AddError)
  have nonan: "\<forall>item \<in> set (Order_Items order). \<not> nan_price item"
    using returned decoded upd get by (auto simp: Update_def Let_def append_items_eq split: if_splits)
  let ?val = "?plan\<lparr>model_Items := map server_item (Order_Items order), model_LastUpdated := Known now\<rparr>"
  have resp: "resp' = State_Set stateSet (resp\<lparr>Diagnostics := ?diags\<rparr>) ?val"
    using returned decoded upd get nonan by (simp add: Update_def Let_def append_items_eq)
  then have "\<not> HasError (stateSet ?val)"
    using ok by (simp add: State_Set_simps HasError_Append)
  then have "State resp' = Some ?val"
    using resp by (simp add: State_Set_simps)
  then show ?thesis using upd get nonan by blast
qed

lemma Read_keeps_ID:
  fixes client :: "'r Client"
  assumes "State response = Some st" and "Get_target (ReadRequest_State request) = st"
    and "result (Read client stateSet request response r) = Returned response'"
  shows "\<exists>st'. State response' = Some st' \<and> model_ID st' = model_ID st"
  using assms
  by (auto simp: Read_def Let_def State_Set_simps split: sum.splits if_splits)

lemma Update_keeps_plan_ID:
  fixes client :: "'r Client"
  assumes "State resp = Some st" and "model_ID (Get_target (UpdateRequest_Plan req)) = model_ID st"
    and "result (Update client stateSet now req resp r) = Returned resp'"
  shows "\<exists>st'. State resp' = Some st' \<and> model_ID st' = model_ID st"
  using assms
  by (auto simp: Update_def Let_def State_Set_simps split: sum.splits if_splits)

lemma Delete_keeps_State:
  fixes client :: "'r Client"
  shows "\<exists>response'. result (Delete client request response r) = Returned response'
     \<and> State response' = State response"
  by (simp add: Delete_def Let_def split: option.split)

lemma Update_example:
  "Update (answering_Client \<lparr>Order_ID = 42, Order_Items = [latte q]\<rparr>) accepts ''now''
     update_request (fresh_response (Some order42)) r =
   \<lparr>result = Returned \<lparr>State = Some \<lparr>model_ID = Known ''42'',
         model_Items = [latte_model q], model_LastUpdated = Known ''now''\<rparr>, Diagnostics = []\<rparr>,
    remote = r, calls = [CallUpdateOrder ''42'' (map wire_item [planned_item 1 3]), CallGetOrder ''42'']\<rparr>"
  by (simp add: Update_def Let_def answering_Client_def canned_Client_def update_request_def decoded_def
      fresh_response_def order42_def HasError_def item_model_latte State_Set_accepts)

lemma Read_example:
  "Read (answering_Client \<lparr>Order_ID = 42, Order_Items = [latte q]\<rparr>) accepts
     \<lparr>ReadRequest_State = decoded order42\<rparr> (fresh_response (Some order42)) r =
   \<lparr>result = Returned \<lparr>State = Some (order42\<lparr>model_Items := [latte_model q]\<rparr>), Diagnostics = []\<rparr>,
    remote = r, calls = [CallGetOrder ''42'']\<rparr>"
  by (simp add: Read_def Let_def answering_Client_def canned_Client_def decoded_def
      fresh_response_def order42_def HasError_def item_model_latte State_Set_accepts)

subsection \<open>The identity key as text\<close>

text \<open>
  Claim C5, as the code has it. The key that CreateOrder returns is turned into text with
  \<open>Itoa\<close>, which is defined on every Go \<open>int\<close> and never fails. The text is a minus sign
  for a negative key and then digits only, at least one, with no leading zero, whose
  decimal value is the magnitude of the key; reading the text back gives the key, so two
  keys with the same text are the same key. The state stored by a successful Create holds
  exactly that text. A key that is already text is not converted or checked: whatever the
  text, Read, Update and Delete hand it to the client as it is.
\<close>

theorem Itoa_exact:
  fixes client :: "'r Client"
  shows "(\<exists>ds. Itoa i = (if sint i < 0 then ''-'' else '''') @ ds \<and> ds \<noteq> []
            \<and> set ds \<subseteq> set ''0123456789'' \<and> (hd ds = CHR ''0'' \<longrightarrow> ds = ''0'')
            \<and> int (decimal_value ds) = \<bar>sint i\<bar>)
   \<and> read_decimal (Itoa i) = sint i
   \<and> (Itoa i = Itoa j \<longrightarrow> i = j)
   \<and> (\<forall>response'. result (Create client stateSet now createRequest response r) = Returned response'
          \<and> \<not> HasError (Diagnostics response') \<longrightarrow>
        (\<exists>order. fst (CreateOrder client
                    (map wire_item (model_Items (Get_target (CreateRequest_Plan createRequest)))) r) = Inr order
           \<and> map_option model_ID (State response') = Some (Known (Itoa (Order_ID order)))))
   \<and> (\<not> HasError (Diagnostics response) \<and> \<not> HasError (Get_diags (ReadRequest_State readRequest)) \<longrightarrow>
        calls (Read client stateSet readRequest response r) =
          [CallGetOrder (ValueString (model_ID (Get_target (ReadRequest_State readRequest))))])
   \<and> (\<not> HasError (Diagnostics response) \<and> \<not> HasError (Get_diags (UpdateRequest_Plan updateRequest)) \<longrightarrow>
        (\<exists>items rest. calls (Update client stateSet now updateRequest response r) =
            CallUpdateOrder (ValueString (model_ID (Get_target (UpdateRequest_Plan updateRequest)))) items # rest
          \<and> rest \<in> {[], [CallGetOrder (ValueString (model_ID (Get_target (UpdateRequest_Plan updateRequest))))]}))
   \<and> (\<not> HasError (Diagnostics response) \<and> \<not> HasError (Get_diags (DeleteRequest_State deleteRequest)) \<longrightarrow>
        calls (Delete client deleteRequest response r) =
          [CallDeleteOrder (ValueString (model_ID (Get_target (DeleteRequest_State deleteRequest))))])"
proof (intro conjI impI allI)
  show "\<exists>ds. Itoa i = (if sint i < 0 then ''-'' else '''') @ ds \<and> ds \<noteq> []
            \<and> set ds \<subseteq> set ''0123456789'' \<and> (hd ds = CHR ''0'' \<longrightarrow> ds = ''0'')
            \<and> int (decimal_value ds) = \<bar>sint i\<bar>"
    by (rule Itoa_shape)
next
  show "read_decimal (Itoa i) = sint i" by (rule read_decimal_Itoa)
next
  assume "Itoa i = Itoa j"
  then have "read_decimal (Itoa i) = read_decimal (Itoa j)" by simp
  then have "sint i = sint j" by (simp add: read_decimal_Itoa)
  then show "i = j" by (rule signed_word_eqI)
next
  fix response'
  assume a: "result (Create client stateSet now createRequest response r) = Returned response'
     \<and> \<not> HasError (Diagnostics response')"
  then show "\<exists>order. fst (CreateOrder client
                    (map wire_item (model_Items (Get_target (CreateRequest_Plan createRequest)))) r) = Inr order
           \<and> map_option model_ID (State response') = Some (Known (Itoa (Order_ID order)))"
    using Create_returned_ok [of client stateSet now createRequest response r response'] by auto
next
  assume "\<not> HasError (Diagnostics response) \<and> \<not> HasError (Get_diags (ReadRequest_State readRequest))"
  then show "calls (Read client stateSet readRequest response r) =
          [CallGetOrder (ValueString (model_ID (Get_target (ReadRequest_State readRequest))))]"
    by (simp add: Read_def Let_def HasError_Append split: sum.split)
next
  assume "\<not> HasError (Diagnostics response) \<and> \<not> HasError (Get_diags (UpdateRequest_Plan updateRequest))"
  then show "\<exists>items rest. calls (Update client stateSet now updateRequest response r) =
            CallUpdateOrder (ValueString (model_ID (Get_target (UpdateRequest_Plan updateRequest)))) items # rest
          \<and> rest \<in> {[], [CallGetOrder (ValueString (model_ID (Get_target (UpdateRequest_Plan updateRequest))))]}"
    by (simp add: Update_def Let_def HasError_Append split: sum.split)
next
  assume "\<not> HasError (Diagnostics response) \<and> \<not> HasError (Get_diags (DeleteRequest_State deleteRequest))"
  then show "calls (Delete client deleteRequest response r) =
          [CallDeleteOrder (ValueString (model_ID (Get_target (DeleteRequest_State deleteRequest))))]"
    by (simp add: Delete_def Let_def HasError_Append split: option.split)
qed

theorem Itoa_exact_witness:
  "read_decimal (Itoa 42) = 42
   \<and> map_option model_ID (State \<lparr>State = Some \<lparr>model_ID = Known ''42'',
         model_Items = [latte_model 2], model_LastUpdated = Known ''now''\<rparr>, Diagnostics = []\<rparr>)
      = Some (Known (Itoa 42))
   \<and> calls (Read (answering_Client \<lparr>Order_ID = 42, Order_Items = []\<rparr>) accepts
        \<lparr>ReadRequest_State = decoded imported_abc\<rparr> (fresh_response (Some imported_abc)) ())
      = [CallGetOrder ''abc'']
   \<and> calls (Delete (answering_Client \<lparr>Order_ID = 42, Order_Items = []\<rparr>)
        \<lparr>DeleteRequest_State = decoded imported_abc\<rparr> (fresh_response (Some imported_abc)) ())
      = [CallDeleteOrder ''abc'']"
proof -
  have returned: "result (Create (answering_Client \<lparr>Order_ID = 42, Order_Items = [latte 2]\<rparr> :: unit Client)
      accepts ''now'' create_request (fresh_response None) ()) = Returned \<lparr>State = Some \<lparr>model_ID = Known ''42'',
         model_Items = [latte_model 2], model_LastUpdated = Known ''now''\<rparr>, Diagnostics = []\<rparr>"
    by (simp add: Create_example)
  note a = Itoa_exact [where i = 42 and j = 42
      and client = "answering_Client \<lparr>Order_ID = 42, Order_Items = [latte 2]\<rparr> :: unit Client"
      and stateSet = accepts and now = "''now''" and createRequest = create_request
      and response = "fresh_response None" and r = "()"
      and readRequest = "\<lparr>ReadRequest_State = decoded imported_abc\<rparr>"
      and updateRequest = update_request
      and deleteRequest = "\<lparr>DeleteRequest_State = decoded imported_abc\<rparr>"]
  note b = Itoa_exact [where i = 42 and j = 42
      and client = "answering_Client \<lparr>Order_ID = 42, Order_Items = []\<rparr> :: unit Client"
      and stateSet = accepts and now = "''now''" and createRequest = create_request
      and response = "fresh_response (Some imported_abc)" and r = "()"
      and readRequest = "\<lparr>ReadRequest_State = decoded imported_abc\<rparr>"
      and updateRequest = update_request
      and deleteRequest = "\<lparr>DeleteRequest_State = decoded imported_abc\<rparr>"]
  have noerr: "\<not> HasError (Diagnostics (fresh_response (Some imported_abc)))
      \<and> \<not> HasError (Get_diags (ReadRequest_State \<lparr>ReadRequest_State = decoded imported_abc\<rparr>))"
    "\<not> HasError (Diagnostics (fresh_response (Some imported_abc)))
      \<and> \<not> HasError (Get_diags (DeleteRequest_State \<lparr>DeleteRequest_State = decoded imported_abc\<rparr>))"
    by (simp_all add: no_error_examples)
  from a have "read_decimal (Itoa 42) = sint (42 :: 64 word)" by blast
  moreover from a returned example_ok
  have "\<exists>order. fst (CreateOrder (answering_Client \<lparr>Order_ID = 42, Order_Items = [latte 2]\<rparr> :: unit Client)
        (map wire_item (model_Items (Get_target (CreateRequest_Plan create_request)))) ()) = Inr order
     \<and> map_option model_ID (State \<lparr>State = Some \<lparr>model_ID = Known ''42'',
         model_Items = [latte_model 2], model_LastUpdated = Known ''now''\<rparr>, Diagnostics = []\<rparr>)
        = Some (Known (Itoa (Order_ID order)))"
    by blast
  moreover from b noerr
  have "calls (Read (answering_Client \<lparr>Order_ID = 42, Order_Items = []\<rparr> :: unit Client) accepts
        \<lparr>ReadRequest_State = decoded imported_abc\<rparr> (fresh_response (Some imported_abc)) ())
      = [CallGetOrder (ValueString (model_ID (Get_target (ReadRequest_State \<lparr>ReadRequest_State = decoded imported_abc\<rparr>))))]"
    and "calls (Delete (answering_Client \<lparr>Order_ID = 42, Order_Items = []\<rparr> :: unit Client)
        \<lparr>DeleteRequest_State = decoded imported_abc\<rparr> (fresh_response (Some imported_abc)) ())
      = [CallDeleteOrder (ValueString (model_ID (Get_target (DeleteRequest_State \<lparr>DeleteRequest_State = decoded imported_abc\<rparr>))))]"
    by blast+
  ultimately show ?thesis
    by (auto simp: answering_Client_def canned_Client_def decoded_def imported_abc_def)
qed

text \<open>
  The claim as written fails: a key that is no number (one given to
  \<open>terraform import\<close>, which ImportState passes through) is sent to the client unchanged,
  and when the client answers the refresh ends without any error.
\<close>

theorem non_numeric_key_counterexample:
  "Read (answering_Client \<lparr>Order_ID = 42, Order_Items = []\<rparr>) accepts \<lparr>ReadRequest_State = decoded imported_abc\<rparr>
       (fresh_response (Some imported_abc)) () =
     \<lparr>result = Returned \<lparr>State = Some imported_abc, Diagnostics = []\<rparr>,
      remote = (), calls = [CallGetOrder ''abc'']\<rparr>"
  by (simp add: Read_def Let_def answering_Client_def canned_Client_def decoded_def fresh_response_def
      imported_abc_def HasError_def State_Set_accepts)

subsection \<open>Update replaces the whole item list\<close>

text \<open>
  Claim C6. Whenever the plan decodes, the first call of Update is UpdateOrder with the
  plan's key and one wire item per planned item, each with the item's coffee key and
  quantity; the only call that may follow is GetOrder. The prior state in the request plays
  no part: with any other prior state the run is the same, so nothing is computed from a
  per-item difference.
\<close>

theorem Update_sends_whole_list:
  fixes client :: "'r Client"
  assumes "\<not> HasError (Diagnostics resp)" and "\<not> HasError (Get_diags (UpdateRequest_Plan req))"
  shows "(\<exists>rest. calls (Update client stateSet now req resp r) =
            CallUpdateOrder (ValueString (model_ID (Get_target (UpdateRequest_Plan req))))
              (map wire_item (model_Items (Get_target (UpdateRequest_Plan req)))) # rest
          \<and> rest \<in> {[], [CallGetOrder (ValueString (model_ID (Get_target (UpdateRequest_Plan req))))]})
     \<and> length (map wire_item (model_Items (Get_target (UpdateRequest_Plan req))))
         = length (model_Items (Get_target (UpdateRequest_Plan req)))
     \<and> map (\<lambda>sent. (Coffee_ID (OrderItem_Coffee sent), OrderItem_Quantity sent))
           (map wire_item (model_Items (Get_target (UpdateRequest_Plan req)))) =
         map (\<lambda>item. (ValueInt64 (coffeeModel_ID (itemModel_Coffee item)), ValueInt64 (itemModel_Quantity item)))
           (model_Items (Get_target (UpdateRequest_Plan req)))
     \<and> Update client stateSet now (req\<lparr>UpdateRequest_State := priorState\<rparr>) resp r = Update client stateSet now req resp r"
proof -
  have "\<exists>rest. calls (Update client stateSet now req resp r) =
            CallUpdateOrder (ValueString (model_ID (Get_target (UpdateRequest_Plan req))))
              (map wire_item (model_Items (Get_target (UpdateRequest_Plan req)))) # rest
          \<and> rest \<in> {[], [CallGetOrder (ValueString (model_ID (Get_target (UpdateRequest_Plan req))))]}"
    using assms by (simp add: Update_def Let_def HasError_Append split: sum.split)
  moreover have "map (\<lambda>sent. (Coffee_ID (OrderItem_Coffee sent), OrderItem_Quantity sent))
           (map wire_item (model_Items (Get_target (UpdateRequest_Plan req)))) =
         map (\<lambda>item. (ValueInt64 (coffeeModel_ID (itemModel_Coffee item)), ValueInt64 (itemModel_Quantity item)))
           (model_Items (Get_target (UpdateRequest_Plan req)))"
    by (simp add: wire_item_fields)
  moreover have "Update client stateSet now (req\<lparr>UpdateRequest_State := priorState\<rparr>) resp r = Update client stateSet now req resp r"
    by (simp add: Update_def)
  ultimately show ?thesis by simp
qed

theorem Update_sends_whole_list_witness:
  "(\<exists>rest. calls (Update (answering_Client \<lparr>Order_ID = 42, Order_Items = [latte 3]\<rparr>) accepts ''now'' update_request
        (fresh_response (Some order42)) ()) =
     CallUpdateOrder ''42'' [\<lparr>OrderItem_Coffee = \<lparr>Coffee_ID = 1, Coffee_Name = '''', Coffee_Teaser = '''',
          Coffee_Description = '''', Coffee_Price = 0, Coffee_Image = ''''\<rparr>, OrderItem_Quantity = 3\<rparr>] # rest
      \<and> rest \<in> {[], [CallGetOrder ''42'']})
   \<and> Update (answering_Client \<lparr>Order_ID = 42, Order_Items = [latte 3]\<rparr>) accepts ''now''
        (update_request\<lparr>UpdateRequest_State := decoded no_items_model\<rparr>) (fresh_response (Some order42)) ()
      = Update (answering_Client \<lparr>Order_ID = 42, Order_Items = [latte 3]\<rparr>) accepts ''now''
        update_request (fresh_response (Some order42)) ()"
proof -
  have "\<not> HasError (Diagnostics (fresh_response (Some order42)))"
    by (rule no_error_examples)
  moreover have "\<not> HasError (Get_diags (UpdateRequest_Plan update_request))"
    by (simp add: update_request_def no_error_examples)
  ultimately show ?thesis
    using Update_sends_whole_list [where resp = "fresh_response (Some order42)" and req = update_request
        and client = "answering_Client \<lparr>Order_ID = 42, Order_Items = [latte 3]\<rparr> :: unit Client"
        and stateSet = accepts and now = "''now''" and r = "()" and priorState = "decoded no_items_model"]
    by (simp add: update_request_def decoded_def order42_def planned_item_def wire_item_def int_of_int64_def)
qed

subsection \<open>Deleting twice\<close>

text \<open>
  Claim C7. With the client's DeleteOrder as section 4.1 of the specification describes
  it, a Delete that ended without an error diagnostic can be run again on the same
  identity key: the second run ends without an error diagnostic as well, and leaves the
  remote system as the first run left it.
\<close>

theorem Delete_twice:
  fixes client :: "Remote Client"
  assumes first: "result (Delete (client\<lparr>DeleteOrder := spec_DeleteOrder\<rparr>) request response r) = Returned response'"
    and ok: "\<not> HasError (Diagnostics response')"
    and fresh: "\<not> HasError (Diagnostics response2)"
  shows "\<exists>response''.
      result (Delete (client\<lparr>DeleteOrder := spec_DeleteOrder\<rparr>) request response2
                (remote (Delete (client\<lparr>DeleteOrder := spec_DeleteOrder\<rparr>) request response r)))
        = Returned response''
      \<and> \<not> HasError (Diagnostics response'')
      \<and> remote (Delete (client\<lparr>DeleteOrder := spec_DeleteOrder\<rparr>) request response2
                (remote (Delete (client\<lparr>DeleteOrder := spec_DeleteOrder\<rparr>) request response r)))
        = remote (Delete (client\<lparr>DeleteOrder := spec_DeleteOrder\<rparr>) request response r)"
proof -
  let ?key = "ValueString (model_ID (Get_target (DeleteRequest_State request)))"
  have decoded: "\<not> HasError (Append (Diagnostics response) (Get_diags (DeleteRequest_State request)))"
    using first ok by (auto simp: Delete_def Let_def)
  then have diags: "\<not> HasError (Get_diags (DeleteRequest_State request))"
    by (simp add: HasError_Append)
  have deleted: "fst (spec_DeleteOrder ?key r) = None"
    using first ok decoded by (auto simp: Delete_def Let_def HasError_AddError split: option.splits)
  have r1: "remote (Delete (client\<lparr>DeleteOrder := spec_DeleteOrder\<rparr>) request response r)
      = snd (spec_DeleteOrder ?key r)"
    using decoded by (simp add: Delete_def Let_def split: option.split)
  have gone: "Remote_orders (snd (spec_DeleteOrder ?key r)) ?key = None"
    using deleted by (auto simp: spec_DeleteOrder_def split: option.splits)
  then have again: "spec_DeleteOrder ?key (snd (spec_DeleteOrder ?key r)) = (None, snd (spec_DeleteOrder ?key r))"
    by (simp add: spec_DeleteOrder_def)
  show ?thesis
    unfolding r1 using fresh diags again by (simp add: Delete_def Let_def HasError_Append)
qed

theorem Delete_twice_witness:
  "result (Delete ((failing_Client (TransportError ''unused''))\<lparr>DeleteOrder := spec_DeleteOrder\<rparr>)
       \<lparr>DeleteRequest_State = decoded order42\<rparr> (fresh_response (Some order42)) remote42)
     = Returned (fresh_response (Some order42))
   \<and> (\<exists>response''. result (Delete ((failing_Client (TransportError ''unused''))\<lparr>DeleteOrder := spec_DeleteOrder\<rparr>)
       \<lparr>DeleteRequest_State = decoded order42\<rparr> (fresh_response (Some order42))
       (remote (Delete ((failing_Client (TransportError ''unused''))\<lparr>DeleteOrder := spec_DeleteOrder\<rparr>)
          \<lparr>DeleteRequest_State = decoded order42\<rparr> (fresh_response (Some order42)) remote42)))
     = Returned response'' \<and> \<not> HasError (Diagnostics response''))"
proof -
  have first: "result (Delete ((failing_Client (TransportError ''unused''))\<lparr>DeleteOrder := spec_DeleteOrder\<rparr>)
       \<lparr>DeleteRequest_State = decoded order42\<rparr> (fresh_response (Some order42)) remote42)
     = Returned (fresh_response (Some order42))"
    by (simp add: Delete_def Let_def failing_Client_def canned_Client_def decoded_def fresh_response_def
        order42_def remote42_def spec_DeleteOrder_def HasError_def)
  have ok: "\<not> HasError (Diagnostics (fresh_response (Some order42)))"
    by (rule no_error_examples)
  from Delete_twice [OF first ok ok] first show ?thesis by blast
qed

subsection \<open>The identity key stays\<close>

text \<open>
  Claim C8. Before creation there is no identity key: Create does not read the planned
  \<open>id\<close>, so its run is the same whatever the plan holds there, and the \<open>id\<close> it stores on
  success is the key the server assigned. After that, with the prior state in the response
  on entry, every Read that returns leaves a state with the \<open>id\<close> of the state it was
  given, and every Update that returns leaves a state with the \<open>id\<close> of its plan, which
  the schema's plan modifier has taken from the prior state; Delete returns and writes no
  state. A run that panics gives no response, so it stores nothing.
\<close>

theorem identity_key_preserved:
  fixes client :: "'r Client"
  shows "Create client stateSet now
            (createRequest\<lparr>CreateRequest_Plan := (CreateRequest_Plan createRequest)
               \<lparr>Get_target := (Get_target (CreateRequest_Plan createRequest))\<lparr>model_ID := plannedID\<rparr>\<rparr>\<rparr>)
            response r
          = Create client stateSet now createRequest response r
   \<and> (\<forall>response'. result (Create client stateSet now createRequest response r) = Returned response'
          \<and> \<not> HasError (Diagnostics response') \<longrightarrow>
        (\<exists>order. fst (CreateOrder client
                    (map wire_item (model_Items (Get_target (CreateRequest_Plan createRequest)))) r) = Inr order
           \<and> map_option model_ID (State response') = Some (Known (Itoa (Order_ID order)))))
   \<and> (State response = Some st \<and> Get_target (ReadRequest_State readRequest) = st \<longrightarrow>
        (\<forall>response'. result (Read client stateSet readRequest response r) = Returned response' \<longrightarrow>
           (\<exists>st'. State response' = Some st' \<and> model_ID st' = model_ID st)))
   \<and> (State response = Some st \<and> configValue \<noteq> Unknown
        \<and> model_ID (Get_target (UpdateRequest_Plan updateRequest)) = UseStateForUnknown (Some st) configValue Unknown \<longrightarrow>
        (\<forall>response'. result (Update client stateSet now updateRequest response r) = Returned response' \<longrightarrow>
           (\<exists>st'. State response' = Some st' \<and> model_ID st' = model_ID st)))
   \<and> (\<exists>response'. result (Delete client deleteRequest response r) = Returned response'
           \<and> State response' = State response)"
proof (intro conjI impI allI)
  show "Create client stateSet now
            (createRequest\<lparr>CreateRequest_Plan := (CreateRequest_Plan createRequest)
               \<lparr>Get_target := (Get_target (CreateRequest_Plan createRequest))\<lparr>model_ID := plannedID\<rparr>\<rparr>\<rparr>)
            response r
          = Create client stateSet now createRequest response r"
    by (simp add: Create_def Let_def split: sum.split)
next
  fix response'
  assume "result (Create client stateSet now createRequest response r) = Returned response'
     \<and> \<not> HasError (Diagnostics response')"
  then show "\<exists>order. fst (CreateOrder client
                    (map wire_item (model_Items (Get_target (CreateRequest_Plan createRequest)))) r) = Inr order
           \<and> map_option model_ID (State response') = Some (Known (Itoa (Order_ID order)))"
    using Create_returned_ok [of client stateSet now createRequest response r response'] by auto
next
  fix response'
  assume "State response = Some st \<and> Get_target (ReadRequest_State readRequest) = st"
    and "result (Read client stateSet readRequest response r) = Returned response'"
  then have "State response = Some st" and "Get_target (ReadRequest_State readRequest) = st"
    and "result (Read client stateSet readRequest response r) = Returned response'"
    by simp_all
  then show "\<exists>st'. State response' = Some st' \<and> model_ID st' = model_ID st"
    by (rule Read_keeps_ID)
next
  fix response'
  assume a: "State response = Some st \<and> configValue \<noteq> Unknown
        \<and> model_ID (Get_target (UpdateRequest_Plan updateRequest)) = UseStateForUnknown (Some st) configValue Unknown"
    and b: "result (Update client stateSet now updateRequest response r) = Returned response'"
  from a have "State response = Some st"
    by simp
  moreover from a have "model_ID (Get_target (UpdateRequest_Plan updateRequest)) = model_ID st"
    by (simp add: UseStateForUnknown_def)
  ultimately show "\<exists>st'. State response' = Some st' \<and> model_ID st' = model_ID st"
    using b by (rule Update_keeps_plan_ID)
next
  show "\<exists>response'. result (Delete client deleteRequest response r) = Returned response'
           \<and> State response' = State response"
    by (rule Delete_keeps_State)
qed

theorem identity_key_preserved_witness:
  "(\<exists>st'. State \<lparr>State = Some (order42\<lparr>model_Items := [latte_model 5]\<rparr>), Diagnostics = []\<rparr> = Some st'
      \<and> model_ID st' = Known ''42'')
   \<and> (\<exists>st'. State \<lparr>State = Some \<lparr>model_ID = Known ''42'',
         model_Items = [latte_model 5], model_LastUpdated = Known ''now''\<rparr>, Diagnostics = []\<rparr> = Some st'
      \<and> model_ID st' = Known ''42'')
   \<and> map_option model_ID (State \<lparr>State = Some \<lparr>model_ID = Known ''42'',
         model_Items = [latte_model 2], model_LastUpdated = Known ''now''\<rparr>, Diagnostics = []\<rparr>)
        = Some (Known (Itoa 42))"
proof -
  have created: "result (Create (answering_Client \<lparr>Order_ID = 42, Order_Items = [latte 2]\<rparr> :: unit Client)
      accepts ''now'' create_request (fresh_response None) ()) = Returned \<lparr>State = Some \<lparr>model_ID = Known ''42'',
         model_Items = [latte_model 2], model_LastUpdated = Known ''now''\<rparr>, Diagnostics = []\<rparr>"
    by (simp add: Create_example)
  have read: "result (Read (answering_Client \<lparr>Order_ID = 42, Order_Items = [latte 5]\<rparr> :: unit Client) accepts
      \<lparr>ReadRequest_State = decoded order42\<rparr> (fresh_response (Some order42)) ())
      = Returned \<lparr>State = Some (order42\<lparr>model_Items := [latte_model 5]\<rparr>), Diagnostics = []\<rparr>"
    by (simp add: Read_example)
  have updated: "result (Update (answering_Client \<lparr>Order_ID = 42, Order_Items = [latte 5]\<rparr> :: unit Client) accepts
      ''now'' update_request (fresh_response (Some order42)) ())
      = Returned \<lparr>State = Some \<lparr>model_ID = Known ''42'',
         model_Items = [latte_model 5], model_LastUpdated = Known ''now''\<rparr>, Diagnostics = []\<rparr>"
    by (simp add: Update_example)
  have st: "State (fresh_response (Some order42)) = Some order42
      \<and> Get_target (ReadRequest_State \<lparr>ReadRequest_State = decoded order42\<rparr>) = order42"
    by (simp add: fresh_response_def decoded_def)
  have plan: "State (fresh_response (Some order42)) = Some order42 \<and> (Null :: string tfval) \<noteq> Unknown
      \<and> model_ID (Get_target (UpdateRequest_Plan update_request)) = UseStateForUnknown (Some order42) Null Unknown"
    by (simp add: fresh_response_def update_request_def decoded_def order42_def UseStateForUnknown_def)
  have id42: "model_ID order42 = Known ''42''"
    by (simp add: order42_def)
  note a = identity_key_preserved [where client = "answering_Client \<lparr>Order_ID = 42, Order_Items = [latte 5]\<rparr> :: unit Client"
      and stateSet = accepts and response = "fresh_response (Some order42)" and st = order42 and configValue = Null
      and readRequest = "\<lparr>ReadRequest_State = decoded order42\<rparr>" and updateRequest = update_request
      and now = "''now''" and r = "()"]
  note b = identity_key_preserved [where client = "answering_Client \<lparr>Order_ID = 42, Order_Items = [latte 2]\<rparr> :: unit Client"
      and stateSet = accepts and response = "fresh_response None" and createRequest = create_request
      and now = "''now''" and r = "()"]
  from a st read have "\<exists>st'. State \<lparr>State = Some (order42\<lparr>model_Items := [latte_model 5]\<rparr>), Diagnostics = []\<rparr> = Some st'
      \<and> model_ID st' = model_ID order42"
    by blast
  moreover from a plan updated have "\<exists>st'. State \<lparr>State = Some \<lparr>model_ID = Known ''42'',
         model_Items = [latte_model 5], model_LastUpdated = Known ''now''\<rparr>, Diagnostics = []\<rparr> = Some st'
      \<and> model_ID st' = model_ID order42"
    by blast
  moreover from b created example_ok
  have "\<exists>order. fst (CreateOrder (answering_Client \<lparr>Order_ID = 42, Order_Items = [latte 2]\<rparr> :: unit Client)
        (map wire_item (model_Items (Get_target (CreateRequest_Plan create_request)))) ()) = Inr order
     \<and> map_option model_ID (State \<lparr>State = Some \<lparr>model_ID = Known ''42'',
         model_Items = [latte_model 2], model_LastUpdated = Known ''now''\<rparr>, Diagnostics = []\<rparr>)
        = Some (Known (Itoa (Order_ID order)))"
    by blast
  ultimately show ?thesis unfolding id42
    by (auto simp: answering_Client_def canned_Client_def)
qed

subsection \<open>Quantities are not checked\<close>

text \<open>
  Claim C9, as the code has it. Create and Update send each planned quantity as it is,
  whatever its sign: the quantities of the request are the planned quantities, item by
  item. What is stored on success are the quantities the server answered with: by Create
  for the items of the response, by Update for every item. Neither handler compares a
  quantity with 1, and the schema declares no validator for it.
\<close>

theorem quantity_sent_as_planned:
  fixes client :: "'r Client"
  assumes "\<not> HasError (Diagnostics response)"
  shows "(\<not> HasError (Get_diags (CreateRequest_Plan createRequest)) \<longrightarrow>
      (\<exists>items. calls (Create client stateSet now createRequest response r) = [CallCreateOrder items]
         \<and> map OrderItem_Quantity items =
             map (\<lambda>item. ValueInt64 (itemModel_Quantity item)) (model_Items (Get_target (CreateRequest_Plan createRequest)))))
   \<and> (\<not> HasError (Get_diags (UpdateRequest_Plan updateRequest)) \<longrightarrow>
      (\<exists>orderID items rest. calls (Update client stateSet now updateRequest response r) = CallUpdateOrder orderID items # rest
         \<and> map OrderItem_Quantity items =
             map (\<lambda>item. ValueInt64 (itemModel_Quantity item)) (model_Items (Get_target (UpdateRequest_Plan updateRequest)))))
   \<and> (\<forall>response'. result (Create client stateSet now createRequest response r) = Returned response'
          \<and> \<not> HasError (Diagnostics response') \<longrightarrow>
        (\<exists>order. fst (CreateOrder client
                    (map wire_item (model_Items (Get_target (CreateRequest_Plan createRequest)))) r) = Inr order
           \<and> map_option (\<lambda>st. map itemModel_Quantity (take (length (Order_Items order)) (model_Items st)))
                (State response')
              = Some (map (\<lambda>orderItem. Known (OrderItem_Quantity orderItem)) (Order_Items order))))
   \<and> (\<forall>response'. result (Update client stateSet now updateRequest response r) = Returned response'
          \<and> \<not> HasError (Diagnostics response') \<longrightarrow>
        (\<exists>order. fst (GetOrder client (ValueString (model_ID (Get_target (UpdateRequest_Plan updateRequest))))
              (snd (UpdateOrder client (ValueString (model_ID (Get_target (UpdateRequest_Plan updateRequest))))
                 (map wire_item (model_Items (Get_target (UpdateRequest_Plan updateRequest)))) r))) = Inr order
           \<and> map_option (\<lambda>st. map itemModel_Quantity (model_Items st)) (State response')
              = Some (map (\<lambda>orderItem. Known (OrderItem_Quantity orderItem)) (Order_Items order))))"
proof (intro conjI impI allI)
  assume "\<not> HasError (Get_diags (CreateRequest_Plan createRequest))"
  then show "\<exists>items. calls (Create client stateSet now createRequest response r) = [CallCreateOrder items]
         \<and> map OrderItem_Quantity items =
             map (\<lambda>item. ValueInt64 (itemModel_Quantity item)) (model_Items (Get_target (CreateRequest_Plan createRequest)))"
    using assms by (simp add: Create_def Let_def HasError_Append wire_item_fields split: sum.split)
next
  assume "\<not> HasError (Get_diags (UpdateRequest_Plan updateRequest))"
  then show "\<exists>orderID items rest. calls (Update client stateSet now updateRequest response r) = CallUpdateOrder orderID items # rest
         \<and> map OrderItem_Quantity items =
             map (\<lambda>item. ValueInt64 (itemModel_Quantity item)) (model_Items (Get_target (UpdateRequest_Plan updateRequest)))"
    using assms by (simp add: Update_def Let_def HasError_Append wire_item_fields split: sum.split)
next
  fix response'
  assume "result (Create client stateSet now createRequest response r) = Returned response'
          \<and> \<not> HasError (Diagnostics response')"
  then show "\<exists>order. fst (CreateOrder client
                    (map wire_item (model_Items (Get_target (CreateRequest_Plan createRequest)))) r) = Inr order
           \<and> map_option (\<lambda>st. map itemModel_Quantity (take (length (Order_Items order)) (model_Items st)))
                (State response')
              = Some (map (\<lambda>orderItem. Known (OrderItem_Quantity orderItem)) (Order_Items order))"
    using Create_returned_ok [of client stateSet now createRequest response r response']
    by (auto simp: comp_def)
next
  fix response'
  assume "result (Update client stateSet now updateRequest response r) = Returned response'
          \<and> \<not> HasError (Diagnostics response')"
  then show "\<exists>order. fst (GetOrder client (ValueString (model_ID (Get_target (UpdateRequest_Plan updateRequest))))
              (snd (UpdateOrder client (ValueString (model_ID (Get_target (UpdateRequest_Plan updateRequest))))
                 (map wire_item (model_Items (Get_target (UpdateRequest_Plan updateRequest)))) r))) = Inr order
           \<and> map_option (\<lambda>st. map itemModel_Quantity (model_Items st)) (State response')
              = Some (map (\<lambda>orderItem. Known (OrderItem_Quantity orderItem)) (Order_Items order))"
    using Update_returned_ok [of client stateSet now updateRequest response r response']
    by (auto simp: comp_def)
qed

theorem quantity_sent_as_planned_witness:
  "(\<exists>items. calls (Create (answering_Client \<lparr>Order_ID = 7, Order_Items = [latte 0]\<rparr>) accepts ''now''
        zero_quantity_request (fresh_response None) ()) = [CallCreateOrder items]
      \<and> map OrderItem_Quantity items = [0])
   \<and> (\<exists>orderID items rest. calls (Update (answering_Client \<lparr>Order_ID = 7, Order_Items = [latte 0]\<rparr>) accepts ''now''
        update_request (fresh_response None) ()) = CallUpdateOrder orderID items # rest
      \<and> map OrderItem_Quantity items = [3])
   \<and> map_option (\<lambda>st. map itemModel_Quantity (model_Items st))
        (State \<lparr>State = Some \<lparr>model_ID = Known ''42'',
         model_Items = [latte_model 0], model_LastUpdated = Known ''now''\<rparr>, Diagnostics = []\<rparr>)
      = Some [Known 0]"
proof -
  have updated: "result (Update (answering_Client \<lparr>Order_ID = 42, Order_Items = [latte 0]\<rparr> :: unit Client) accepts
      ''now'' update_request (fresh_response (Some order42)) ())
      = Returned \<lparr>State = Some \<lparr>model_ID = Known ''42'',
         model_Items = [latte_model 0], model_LastUpdated = Known ''now''\<rparr>, Diagnostics = []\<rparr>"
    by (simp add: Update_example)
  have noerr: "\<not> HasError (Diagnostics (fresh_response state))"
    "\<not> HasError (Get_diags (CreateRequest_Plan zero_quantity_request))"
    "\<not> HasError (Get_diags (UpdateRequest_Plan update_request))" for state
    by (simp_all add: zero_quantity_request_def update_request_def no_error_examples)
  note a = quantity_sent_as_planned [OF noerr(1) [of None], where createRequest = zero_quantity_request
      and client = "answering_Client \<lparr>Order_ID = 7, Order_Items = [latte 0]\<rparr> :: unit Client"
      and stateSet = accepts and now = "''now''" and r = "()" and updateRequest = update_request]
  note b = quantity_sent_as_planned [OF noerr(1) [of "Some order42"], where createRequest = zero_quantity_request
      and client = "answering_Client \<lparr>Order_ID = 42, Order_Items = [latte 0]\<rparr> :: unit Client"
      and stateSet = accepts and now = "''now''" and r = "()" and updateRequest = update_request]
  from a noerr have "(\<exists>items. calls (Create (answering_Client \<lparr>Order_ID = 7, Order_Items = [latte 0]\<rparr> :: unit Client) accepts ''now''
        zero_quantity_request (fresh_response None) ()) = [CallCreateOrder items]
      \<and> map OrderItem_Quantity items = map (\<lambda>item. ValueInt64 (itemModel_Quantity item))
           (model_Items (Get_target (CreateRequest_Plan zero_quantity_request))))
   \<and> (\<exists>orderID items rest. calls (Update (answering_Client \<lparr>Order_ID = 7, Order_Items = [latte 0]\<rparr> :: unit Client) accepts ''now''
        update_request (fresh_response None) ()) = CallUpdateOrder orderID items # rest
      \<and> map OrderItem_Quantity items = map (\<lambda>item. ValueInt64 (itemModel_Quantity item))
           (model_Items (Get_target (UpdateRequest_Plan update_request))))"
    by blast
  moreover from b updated example_ok
  have "\<exists>order. fst (GetOrder (answering_Client \<lparr>Order_ID = 42, Order_Items = [latte 0]\<rparr> :: unit Client)
              (ValueString (model_ID (Get_target (UpdateRequest_Plan update_request))))
              (snd (UpdateOrder (answering_Client \<lparr>Order_ID = 42, Order_Items = [latte 0]\<rparr> :: unit Client)
                 (ValueString (model_ID (Get_target (UpdateRequest_Plan update_request))))
                 (map wire_item (model_Items (Get_target (UpdateRequest_Plan update_request)))) ()))) = Inr order
           \<and> map_option (\<lambda>st. map itemModel_Quantity (model_Items st))
               (State \<lparr>State = Some \<lparr>model_ID = Known ''42'',
                  model_Items = [latte_model 0], model_LastUpdated = Known ''now''\<rparr>, Diagnostics = []\<rparr>)
              = Some (map (\<lambda>orderItem. Known (OrderItem_Quantity orderItem)) (Order_Items order))"
    by blast
  ultimately show ?thesis
    by (auto simp: zero_quantity_request_def update_request_def decoded_def no_items_model_def
        planned_item_def order42_def answering_Client_def canned_Client_def latte_def)
qed

text \<open>
  The claim as written fails: a planned quantity of zero is sent to the remote, and the
  zero the server answers with is stored.
\<close>

theorem zero_quantity_counterexample:
  "Create (answering_Client \<lparr>Order_ID = 7, Order_Items = [latte 0]\<rparr>) accepts ''now'' zero_quantity_request
       (fresh_response None) () =
     \<lparr>result = Returned \<lparr>State = Some \<lparr>model_ID = Known ''7'',
          model_Items = [latte_model 0], model_LastUpdated = Known ''now''\<rparr>, Diagnostics = []\<rparr>,
      remote = (), calls = [CallCreateOrder [wire_item (planned_item 1 0)]]\<rparr>
   \<and> OrderItem_Quantity (wire_item (planned_item 1 0)) = 0
   \<and> itemModel_Quantity (latte_model 0) = Known 0"
  by (simp add: Create_def Let_def answering_Client_def canned_Client_def zero_quantity_request_def decoded_def
      fresh_response_def no_items_model_def HasError_def Itoa_7 item_model_latte State_Set_accepts)
     (simp add: wire_item_def latte_model_def planned_item_def int_of_int64_def)

subsection \<open>Create and a response longer than the plan\<close>

text \<open>
  Claim C10. Create writes the items of the response into \<open>plan.Items\<close> by position.
  Once CreateOrder has answered, Create returns exactly when the response has at most as
  many items as the plan and no price in it is a NaN: it is free of panics only if the
  response is no longer than the plan. When the response has more items than the plan,
  and no item up to the first one past the end of the plan has a NaN price, the index is
  out of range and Create panics; and an index is out of range only when the response has
  more items than the plan.
\<close>

theorem Create_panics_iff:
  fixes client :: "'r Client"
  assumes "\<not> HasError (Diagnostics response)" and "\<not> HasError (Get_diags (CreateRequest_Plan request))"
    and "fst (CreateOrder client (map wire_item (model_Items (Get_target (CreateRequest_Plan request)))) r) = Inr order"
  shows "((\<exists>response'. result (Create client stateSet now request response r) = Returned response')
       = (length (Order_Items order) \<le> length (model_Items (Get_target (CreateRequest_Plan request)))
          \<and> (\<forall>orderItem \<in> set (Order_Items order). \<not> nan_price orderItem)))
   \<and> (length (model_Items (Get_target (CreateRequest_Plan request))) < length (Order_Items order)
        \<and> (\<forall>orderItem \<in> set (take (Suc (length (model_Items (Get_target (CreateRequest_Plan request)))))
                (Order_Items order)). \<not> nan_price orderItem)
       \<longrightarrow> result (Create client stateSet now request response r) = Panic IndexOutOfRange)
   \<and> (result (Create client stateSet now request response r) = Panic IndexOutOfRange
       \<longrightarrow> length (model_Items (Get_target (CreateRequest_Plan request))) < length (Order_Items order))
   \<and> (result (Create client stateSet now request response r) = Panic FloatNaN
       \<longrightarrow> (\<exists>orderItem \<in> set (Order_Items order). nan_price orderItem))"
proof -
  let ?items = "model_Items (Get_target (CreateRequest_Plan request))"
  have run: "result (Create client stateSet now request response r) =
     (case assign_items ?items 0 (Order_Items order) of
        Inl p \<Rightarrow> Panic p
      | Inr planItems \<Rightarrow> Returned (State_Set stateSet
          (response\<lparr>Diagnostics := Append (Diagnostics response) (Get_diags (CreateRequest_Plan request))\<rparr>)
          ((Get_target (CreateRequest_Plan request))\<lparr>model_ID := Known (Itoa (Order_ID order)),
             model_Items := planItems, model_LastUpdated := Known now\<rparr>)))"
    using assms by (simp add: Create_def Let_def HasError_Append split: sum.split)
  have short: "length (Order_Items order) \<le> length ?items
      \<Longrightarrow> take (Suc (length ?items)) (Order_Items order) = Order_Items order"
    by simp
  have sub: "set (take (Suc (length ?items)) (Order_Items order)) \<subseteq> set (Order_Items order)"
    by (rule set_take_subset)
  show ?thesis
    unfolding run assign_items_0 using short sub by (auto split: if_splits)
qed

theorem Create_panics_iff_witness:
  "result (Create (answering_Client \<lparr>Order_ID = 42, Order_Items = [latte 2, latte 1]\<rparr>) accepts ''now'' create_request
       (fresh_response None) ()) = Panic IndexOutOfRange
   \<and> (\<exists>response'. result (Create (answering_Client \<lparr>Order_ID = 42, Order_Items = [latte 2]\<rparr>) accepts ''now'' create_request
       (fresh_response None) ()) = Returned response')
   \<and> \<not> (\<exists>response'. result (Create (answering_Client \<lparr>Order_ID = 42, Order_Items = [nan_latte]\<rparr>) accepts ''now''
       create_request (fresh_response None) ()) = Returned response')"
proof -
  have a: "\<not> HasError (Diagnostics (fresh_response None))"
    by (rule no_error_examples)
  have b: "\<not> HasError (Get_diags (CreateRequest_Plan create_request))"
    by (simp add: create_request_def no_error_examples)
  have c: "fst (CreateOrder (answering_Client order :: unit Client)
      (map wire_item (model_Items (Get_target (CreateRequest_Plan create_request)))) ()) = Inr order" for order
    by (simp add: answering_Client_def canned_Client_def)
  have len: "length (model_Items (Get_target (CreateRequest_Plan create_request))) = 1"
    by (simp add: create_request_def decoded_def no_items_model_def)
  show ?thesis
    using Create_panics_iff [OF a b c, of "\<lparr>Order_ID = 42, Order_Items = [latte 2, latte 1]\<rparr>" accepts "''now''"]
      Create_panics_iff [OF a b c, of "\<lparr>Order_ID = 42, Order_Items = [latte 2]\<rparr>" accepts "''now''"]
      Create_panics_iff [OF a b c, of "\<lparr>Order_ID = 42, Order_Items = [nan_latte]\<rparr>" accepts "''now''"]
    unfolding len by (simp add: nan_price_examples)
qed

end
